theory Spec2Isabelle
  imports Complex_Main "HOL-Library.Sublist"
begin

section \<open>Instagram trending-hashtag pipeline (src/main.py)\<close>

text \<open>
  A shallow embedding of the pure core of \<^verbatim>\<open>src/main.py\<close>: the categorizer, the
  discovery tally, the engagement aggregation, the record builder and the upsert writer.
  The browser page, the random source, the clock and the Supabase client are external
  collaborators; they enter the model as parameters. The calls that print or log are taken
  to return and are left out.

  A character of a \<^typ>\<open>string\<close> is a Unicode code point below 256, so the strings of
  the theory are the Python strings over these code points, and \<open>length\<close> is \<^verbatim>\<open>len\<close>.
  Python's unbounded \<open>int\<close> is \<^typ>\<open>int\<close>. The float arithmetic of the interpreter is a
  parameter of the definitions that compute with floats.
\<close>

subsection \<open>Python primitives\<close>

text \<open>
  \<^verbatim>\<open>str.lower()\<close>. Below code point 256 the capital letters are \<open>A\<close> to \<open>Z\<close> (65 to
  90) and the accented capitals 192 to 214 and 216 to 222 (215 is the multiplication
  sign); each has its small letter 32 above it, and no other character changes.
\<close>

definition lower_char :: "char \<Rightarrow> char" where
  "lower_char c =
     (if (65 \<le> (of_char c :: nat) \<and> (of_char c :: nat) \<le> 90)
         \<or> (192 \<le> (of_char c :: nat) \<and> (of_char c :: nat) \<le> 214)
         \<or> (216 \<le> (of_char c :: nat) \<and> (of_char c :: nat) \<le> 222)
      then char_of ((of_char c :: nat) + 32) else c)"

definition lower :: "string \<Rightarrow> string" where
  "lower s = map lower_char s"

text \<open>
  \<^verbatim>\<open>str.isdigit()\<close>: non-empty and every character a digit. Below code point 256 the
  digits are \<open>0\<close> to \<open>9\<close> (48 to 57) and the superscripts two, three and one (178, 179
  and 185).
\<close>

definition is_digit_char :: "char \<Rightarrow> bool" where
  "is_digit_char c =
     ((48 \<le> (of_char c :: nat) \<and> (of_char c :: nat) \<le> 57)
      \<or> (of_char c :: nat) = 178 \<or> (of_char c :: nat) = 179 \<or> (of_char c :: nat) = 185)"

definition isdigit :: "string \<Rightarrow> bool" where
  "isdigit s = (s \<noteq> [] \<and> list_all is_digit_char s)"

text \<open>
  The slice \<^verbatim>\<open>xs[:n]\<close>: the first \<open>n\<close> elements, and for a negative \<open>n\<close> all but the
  last \<open>-n\<close>.
\<close>

definition py_take :: "int \<Rightarrow> 'a list \<Rightarrow> 'a list" where
  "py_take n xs =
     (if 0 \<le> n then take (nat n) xs else take (length xs - nat (- n)) xs)"

text \<open>
  \<^verbatim>\<open>keyword in hashtag_lower\<close> on two strings is contiguous containment, which is
  \<^const>\<open>sublist\<close> of the list library.
\<close>

text \<open>
  Exceptions that reach a handler of the program. \<open>ValueError\<close> and \<open>OverflowError\<close>
  carry their message.
\<close>

datatype py_error =
    KeyError string
  | IndexError
  | ValueError string
  | OverflowError string
  | Raised string

subsection \<open>Categorizer\<close>

text \<open>The table \<^verbatim>\<open>HASHTAG_CATEGORIES\<close>; a dict literal iterates in declaration order.\<close>

definition HASHTAG_CATEGORIES :: "(string \<times> string list) list" where
  "HASHTAG_CATEGORIES =
   [(''fashion'', [''fashion'', ''style'', ''ootd'', ''outfit'', ''fashionista'', ''stylish'',
       ''beauty'', ''makeup'', ''clothing'', ''dress'', ''shoes'', ''accessories'']),
    (''fitness'', [''fitness'', ''gym'', ''workout'', ''health'', ''fit'', ''exercise'',
       ''training'', ''muscle'', ''bodybuilding'', ''yoga'', ''running'', ''cycling'']),
    (''food'', [''food'', ''foodie'', ''cooking'', ''recipe'', ''delicious'', ''yummy'',
       ''instafood'', ''foodporn'', ''chef'', ''restaurant'', ''dinner'', ''lunch'',
       ''breakfast'']),
    (''travel'', [''travel'', ''wanderlust'', ''vacation'', ''adventure'', ''explore'', ''trip'',
       ''tourism'', ''beach'', ''nature'', ''mountains'', ''travelgram'']),
    (''technology'', [''tech'', ''technology'', ''gadget'', ''innovation'', ''digital'',
       ''coding'', ''programming'', ''ai'', ''software'', ''hardware'', ''app'']),
    (''business'', [''business'', ''entrepreneur'', ''startup'', ''marketing'', ''finance'',
       ''investing'', ''money'', ''success'', ''motivation'', ''hustle'']),
    (''entertainment'', [''entertainment'', ''movie'', ''music'', ''celebrity'', ''artist'',
       ''actor'', ''singer'', ''concert'', ''film'', ''show'', ''viral'', ''trending'', ''funny'',
       ''meme'']),
    (''lifestyle'', [''lifestyle'', ''life'', ''happy'', ''love'', ''instagood'',
       ''photooftheday'', ''picoftheday'', ''instagram'', ''insta'', ''daily'', ''inspiration'']),
    (''photography'', [''photography'', ''photo'', ''photographer'', ''camera'', ''portrait'',
       ''landscape'', ''art'', ''creative'', ''photoshoot'']),
    (''sports'', [''sports'', ''football'', ''soccer'', ''basketball'', ''cricket'', ''tennis'',
       ''athlete'', ''game'', ''player'', ''team'', ''championship''])]"

text \<open>The inner loop: does some keyword of the list occur in the lowercased tag?\<close>

fun any_keyword_in :: "string list \<Rightarrow> string \<Rightarrow> bool" where
  "any_keyword_in [] hashtag_lower = False"
| "any_keyword_in (keyword # keywords) hashtag_lower =
     (if sublist keyword hashtag_lower then True else any_keyword_in keywords hashtag_lower)"

text \<open>The outer loop over the table's items, with the final \<^verbatim>\<open>return 'general'\<close>.\<close>

fun categorize_in :: "(string \<times> string list) list \<Rightarrow> string \<Rightarrow> string" where
  "categorize_in [] hashtag_lower = ''general''"
| "categorize_in ((category, keywords) # rest) hashtag_lower =
     (if any_keyword_in keywords hashtag_lower then category
      else categorize_in rest hashtag_lower)"

definition categorize_hashtag :: "string \<Rightarrow> string" where
  "categorize_hashtag hashtag = categorize_in HASHTAG_CATEGORIES (lower hashtag)"

text \<open>What "a keyword of the entry is a substring of the tag" means, stated on the library.\<close>

definition entry_matches :: "string \<Rightarrow> string \<times> string list \<Rightarrow> bool" where
  "entry_matches t e = (\<exists>k \<in> set (snd e). sublist k t)"

subsection \<open>Configuration\<close>

text \<open>The discovery settings of \<^verbatim>\<open>Config\<close>, each read from the environment as an \<open>int\<close>.\<close>

record config =
  SCROLL_COUNT :: int
  POSTS_TO_SCAN :: int
  MIN_HASHTAG_FREQUENCY :: int
  TOP_HASHTAGS_TO_SAVE :: int
  POSTS_PER_HASHTAG :: int

subsection \<open>Discovery collector\<close>

text \<open>
  One entry of \<^verbatim>\<open>post_links\<close> as the loop body sees it: reading the image's alt text
  or the link's href raises (\<open>Inl\<close>, the post is skipped by the handler), or it yields the
  tags that \<^verbatim>\<open>re.findall(r'#(\w+)', alt_text)\<close> extracts, in order, and the href.
\<close>

type_synonym post_link = "string + (string list \<times> string)"

text \<open>
  \<^verbatim>\<open>hashtag_counter\<close> is a \<^verbatim>\<open>Counter\<close>: a dict, so its items keep insertion order.
  \<^verbatim>\<open>hashtag_counter[k] += 1\<close> bumps an existing key in place and appends a new one.
\<close>

fun counter_incr :: "string \<Rightarrow> (string \<times> int) list \<Rightarrow> (string \<times> int) list" where
  "counter_incr k [] = [(k, 1)]"
| "counter_incr k ((k', c) # rest) =
     (if k = k' then (k', c + 1) # rest else (k', c) # counter_incr k rest)"

text \<open>\<^verbatim>\<open>hashtag_counter[tag]\<close>: a missing key of a \<^verbatim>\<open>Counter\<close> reads as 0.\<close>

fun counter_get :: "(string \<times> int) list \<Rightarrow> string \<Rightarrow> int" where
  "counter_get [] k = 0"
| "counter_get ((k', c) # rest) k = (if k = k' then c else counter_get rest k)"

record tally =
  hashtag_counter :: "(string \<times> int) list"
  post_hashtags_map :: "string \<rightharpoonup> string list"

text \<open>The body of \<^verbatim>\<open>for tag in hashtags\<close> for one tag.\<close>

definition tally_tag :: "string \<Rightarrow> string \<Rightarrow> tally \<Rightarrow> tally" where
  "tally_tag post_url tag st =
     (if 3 \<le> length tag \<and> length tag \<le> 30 \<and> \<not> isdigit tag then
        let normalized_tag = lower tag in
        st\<lparr>hashtag_counter := counter_incr normalized_tag (hashtag_counter st),
           post_hashtags_map :=
             (post_hashtags_map st)(normalized_tag \<mapsto>
                (case post_hashtags_map st normalized_tag of
                   None \<Rightarrow> [post_url]
                 | Some posts \<Rightarrow> posts @ [post_url]))\<rparr>
      else st)"

fun tally_tags :: "string \<Rightarrow> string list \<Rightarrow> tally \<Rightarrow> tally" where
  "tally_tags post_url [] st = st"
| "tally_tags post_url (tag # hashtags) st =
     tally_tags post_url hashtags (tally_tag post_url tag st)"

text \<open>The loop over \<^verbatim>\<open>post_links\<close>; a post whose attributes cannot be read is skipped.\<close>

fun tally_posts :: "post_link list \<Rightarrow> tally \<Rightarrow> tally" where
  "tally_posts [] st = st"
| "tally_posts (Inl e # post_links) st = tally_posts post_links st"
| "tally_posts (Inr (hashtags, post_url) # post_links) st =
     tally_posts post_links (tally_tags post_url hashtags st)"

text \<open>
  \<^verbatim>\<open>Counter.most_common()\<close> is \<^verbatim>\<open>sorted(items, key=itemgetter(1), reverse=True)\<close>:
  a stable sort by descending count. \<^const>\<open>sort_key\<close> is a stable insertion sort.
\<close>

definition most_common :: "(string \<times> int) list \<Rightarrow> (string \<times> int) list" where
  "most_common items = sort_key (\<lambda>(tag, count). - count) items"

text \<open>One element of the list that \<^verbatim>\<open>discover_trending_hashtags\<close> returns.\<close>

record hashtag_data =
  hashtag :: string
  frequency :: int
  posts_count :: int
  sample_posts :: "string list"
  category :: string

text \<open>
  The loop that builds the detailed data. \<^verbatim>\<open>post_hashtags_map[tag]\<close> on a missing key
  raises \<^verbatim>\<open>KeyError\<close>.
\<close>

fun build_hashtag_data :: "config \<Rightarrow> tally \<Rightarrow> string list \<Rightarrow> py_error + hashtag_data list" where
  "build_hashtag_data cfg st [] = Inr []"
| "build_hashtag_data cfg st (tag # top_hashtags) =
     (case post_hashtags_map st tag of
        None \<Rightarrow> Inl (KeyError tag)
      | Some posts_using \<Rightarrow>
          (case build_hashtag_data cfg st top_hashtags of
             Inl e \<Rightarrow> Inl e
           | Inr rest \<Rightarrow>
               Inr (\<lparr>hashtag = tag,
                     frequency = counter_get (hashtag_counter st) tag,
                     posts_count = int (length posts_using),
                     sample_posts = py_take (POSTS_PER_HASHTAG cfg) posts_using,
                     category = categorize_hashtag tag\<rparr> # rest)))"

definition top_hashtags_of :: "config \<Rightarrow> tally \<Rightarrow> string list" where
  "top_hashtags_of cfg st =
     py_take (TOP_HASHTAGS_TO_SAVE cfg)
       (map fst (filter (\<lambda>(tag, count). count \<ge> MIN_HASHTAG_FREQUENCY cfg)
                        (most_common (hashtag_counter st))))"

text \<open>
  \<^verbatim>\<open>discover_trending_hashtags\<close>. The argument is what the page gives after navigation
  and scrolling: \<open>Inl\<close> when that raised (the outer handler returns the empty list),
  otherwise every located post link. Any exception inside the function ends in the same
  handler.
\<close>

definition discover_trending_hashtags :: "config \<Rightarrow> string + post_link list \<Rightarrow> hashtag_data list" where
  "discover_trending_hashtags cfg page =
     (case page of
        Inl e \<Rightarrow> []
      | Inr all_links \<Rightarrow>
          let post_links = py_take (POSTS_TO_SCAN cfg) all_links;
              st = tally_posts post_links \<lparr>hashtag_counter = [], post_hashtags_map = Map.empty\<rparr>;
              top_hashtags = top_hashtags_of cfg st
          in if top_hashtags = [] then []
             else (case build_hashtag_data cfg st top_hashtags of
                     Inl e \<Rightarrow> []
                   | Inr hashtag_data \<Rightarrow> hashtag_data))"

subsection \<open>The Python runtime\<close>

text \<open>
  A Python \<open>float\<close> is a value of a type \<open>'f\<close> that the theory leaves open, and the
  float arithmetic of the interpreter is a parameter: rounding, overflow to infinity, NaN
  and the exceptions of the conversions are whatever the interpreter does. One field per
  operation the program uses:
  \<^item> \<open>float_of_int i\<close> is \<^verbatim>\<open>float(i)\<close> on an int (\<open>OverflowError\<close> when too large);
  \<^item> \<open>int_of_float x\<close> is \<^verbatim>\<open>int(x)\<close> on a float (\<open>ValueError\<close> on NaN,
    \<open>OverflowError\<close> on an infinity);
  \<^item> \<open>true_div i j\<close> is \<^verbatim>\<open>i / j\<close> on two ints (\<open>OverflowError\<close> when the quotient is
    too large);
  \<^item> \<open>float_mul x y\<close> is \<^verbatim>\<open>x * y\<close> on two floats;
  \<^item> \<open>float_mul_len x n\<close> is \<^verbatim>\<open>x * len(xs)\<close>, a float times the length \<open>n\<close> of a list;
  \<^item> \<open>int_mul_float i x\<close> is \<^verbatim>\<open>i * x\<close>, an int times a float (\<open>OverflowError\<close> when the
    int is too large to convert).
\<close>

record 'f runtime =
  float_of_int :: "int \<Rightarrow> py_error + 'f"
  int_of_float :: "'f \<Rightarrow> py_error + int"
  true_div :: "int \<Rightarrow> int \<Rightarrow> py_error + 'f"
  float_mul :: "'f \<Rightarrow> 'f \<Rightarrow> 'f"
  float_mul_len :: "'f \<Rightarrow> nat \<Rightarrow> 'f"
  int_mul_float :: "int \<Rightarrow> 'f \<Rightarrow> py_error + 'f"

text \<open>A Python number: an \<open>int\<close> or a \<open>float\<close>.\<close>

datatype 'f pynum = PInt int | PFloat 'f

text \<open>\<^verbatim>\<open>int(x)\<close> and \<^verbatim>\<open>float(x)\<close> on a number.\<close>

fun py_int :: "'f runtime \<Rightarrow> 'f pynum \<Rightarrow> py_error + int" where
  "py_int rt (PInt i) = Inr i"
| "py_int rt (PFloat x) = int_of_float rt x"

fun py_float :: "'f runtime \<Rightarrow> 'f pynum \<Rightarrow> py_error + 'f" where
  "py_float rt (PInt i) = float_of_int rt i"
| "py_float rt (PFloat x) = Inr x"

subsection \<open>Per-post engagement\<close>

text \<open>The dict that \<^verbatim>\<open>get_post_engagement\<close> returns for one post.\<close>

record post_engagement =
  p_likes :: int
  p_comments :: int
  p_views :: int
  p_total_engagement :: int
  is_video :: bool

text \<open>
  What the page gave for one post: the entries of \<^verbatim>\<open>engagement_data\<close> when the
  function reaches its fallback estimation (the video check and the three reads, each
  with its own handler, are behind it).
\<close>

record scraped =
  s_likes :: int
  s_comments :: int
  s_views :: int
  s_is_video :: bool

text \<open>An instant of the UTC clock. \<^verbatim>\<open>isoformat()\<close> is one-to-one and left out.\<close>

type_synonym datetime = nat

text \<open>
  The collaborators outside the pipeline, over a state \<open>'w\<close> of the outside world:
  \<^item> \<open>scrape\<close> drives the browser page for one post url, from the navigation to the
    last read: it yields what was read, or \<open>Inl\<close> when an exception reaches the outer
    handler of \<^verbatim>\<open>get_post_engagement\<close>;
  \<^item> \<open>goto_explore\<close> is the navigation back to the explore page between two sample
    posts; should it raise, the loop's handler swallows it;
  \<^item> \<open>randint a b\<close> is \<^verbatim>\<open>random.randint(a, b)\<close>;
  \<^item> \<open>uniform_15_25\<close> is \<^verbatim>\<open>random.uniform(15, 25)\<close>, called by
    \<^verbatim>\<open>get_post_engagement\<close> and by \<^verbatim>\<open>analyze_hashtag_engagement\<close>;
  \<^item> \<open>utcnow\<close> is \<^verbatim>\<open>datetime.utcnow()\<close>.
\<close>

record ('f, 'w) env =
  scrape :: "'w \<Rightarrow> string \<Rightarrow> (py_error + scraped) \<times> 'w"
  goto_explore :: "'w \<Rightarrow> 'w"
  randint :: "int \<Rightarrow> int \<Rightarrow> 'w \<Rightarrow> int \<times> 'w"
  uniform_15_25 :: "'w \<Rightarrow> 'f \<times> 'w"
  utcnow :: "'w \<Rightarrow> datetime \<times> 'w"

text \<open>
  The dict of the outer handler of \<^verbatim>\<open>get_post_engagement\<close>: four random draws, in
  the order of the dict literal.
\<close>

definition fallback_engagement :: "('f, 'w) env \<Rightarrow> 'w \<Rightarrow> post_engagement \<times> 'w" where
  "fallback_engagement env w =
     (case randint env 500 8000 w of
        (l, w1) \<Rightarrow>
          (case randint env 20 300 w1 of
             (c, w2) \<Rightarrow>
               (case randint env 10000 100000 w2 of
                  (v, w3) \<Rightarrow>
                    (case randint env 520 8300 w3 of
                       (t, w4) \<Rightarrow>
                         (\<lparr>p_likes = l, p_comments = c, p_views = v,
                           p_total_engagement = t, is_video = False\<rparr>, w4)))))"

text \<open>
  The two draws taken when no like count was read
  (\<^verbatim>\<open>if engagement_data['likes'] == 0\<close>).
\<close>

definition estimate_likes :: "('f, 'w) env \<Rightarrow> scraped \<Rightarrow> 'w \<Rightarrow> (int \<times> int) \<times> 'w" where
  "estimate_likes env d w =
     (if s_likes d = 0 then
        (case randint env 500 8000 w of
           (l, w1) \<Rightarrow> (case randint env 20 300 w1 of (c, w2) \<Rightarrow> ((l, c), w2)))
      else ((s_likes d, s_comments d), w))"

text \<open>
  \<^verbatim>\<open>get_post_engagement\<close>. It returns a dict on every path: whatever is raised inside,
  the conversion \<^verbatim>\<open>int(total_eng * random.uniform(15, 25))\<close> included, ends in the outer
  handler, which returns the fallback dict.
\<close>

definition get_post_engagement ::
    "'f runtime \<Rightarrow> ('f, 'w) env \<Rightarrow> 'w \<Rightarrow> string \<Rightarrow> post_engagement \<times> 'w" where
  "get_post_engagement rt env w post_url =
     (case scrape env w post_url of
        (Inl e, w1) \<Rightarrow> fallback_engagement env w1
      | (Inr d, w1) \<Rightarrow>
          (case estimate_likes env d w1 of
             ((likes', comments'), w2) \<Rightarrow>
               if s_is_video d \<and> s_views d = 0 then
                 (case uniform_15_25 env w2 of
                    (u, w3) \<Rightarrow>
                      (case int_mul_float rt (likes' + comments') u of
                         Inl e \<Rightarrow> fallback_engagement env w3
                       | Inr x \<Rightarrow>
                           (case int_of_float rt x of
                              Inl e \<Rightarrow> fallback_engagement env w3
                            | Inr views' \<Rightarrow>
                                (\<lparr>p_likes = likes', p_comments = comments',
                                  p_views = views',
                                  p_total_engagement = likes' + comments',
                                  is_video = True\<rparr>, w3))))
               else
                 (\<lparr>p_likes = likes', p_comments = comments', p_views = s_views d,
                   p_total_engagement = likes' + comments',
                   is_video = s_is_video d\<rparr>, w2)))"

subsection \<open>Engagement aggregator\<close>

text \<open>The five accumulators of the sampling loop.\<close>

record samples =
  all_likes :: "int list"
  all_comments :: "int list"
  all_engagement :: "int list"
  all_views :: "int list"
  video_count_acc :: int

text \<open>The appends of one iteration.\<close>

definition add_sample :: "post_engagement \<Rightarrow> samples \<Rightarrow> samples" where
  "add_sample engagement acc =
     acc\<lparr>all_likes := all_likes acc @ [p_likes engagement],
         all_comments := all_comments acc @ [p_comments engagement],
         all_engagement := all_engagement acc @ [p_total_engagement engagement],
         all_views := (if is_video engagement
                       then all_views acc @ [p_views engagement] else all_views acc),
         video_count_acc := (if is_video engagement
                       then video_count_acc acc + 1 else video_count_acc acc)\<rparr>"

text \<open>
  The loop \<^verbatim>\<open>for idx, post_url in enumerate(sample_posts, 1)\<close>. The call of
  \<^verbatim>\<open>get_post_engagement\<close> returns on every path, so each post appends; the page goes
  back to the explore page after every post but the last.
\<close>

fun sample_loop ::
    "'f runtime \<Rightarrow> ('f, 'w) env \<Rightarrow> string list \<Rightarrow> samples \<Rightarrow> 'w \<Rightarrow> samples \<times> 'w" where
  "sample_loop rt env [] acc w = (acc, w)"
| "sample_loop rt env (post_url # rest) acc w =
     (case get_post_engagement rt env w post_url of
        (engagement, w') \<Rightarrow>
          sample_loop rt env rest (add_sample engagement acc)
            (if rest \<noteq> [] then goto_explore env w' else w'))"

text \<open>The summary dict that \<^verbatim>\<open>analyze_hashtag_engagement\<close> returns.\<close>

record 'f engagement_summary =
  avg_likes :: "'f pynum"
  avg_comments :: "'f pynum"
  avg_engagement :: "'f pynum"
  avg_views :: "'f pynum"
  total_engagement :: "'f pynum"
  total_views :: "'f pynum"
  video_count :: int

text \<open>
  The three averages of the returned dict, \<^verbatim>\<open>sum(xs) / len(xs)\<close> for likes, comments
  and engagement in this order, around the views figures computed before.
\<close>

definition averaged ::
    "'f runtime \<Rightarrow> samples \<Rightarrow> 'f pynum \<Rightarrow> 'f pynum \<Rightarrow> py_error + 'f engagement_summary" where
  "averaged rt acc avg_views' total_views' =
     (case true_div rt (sum_list (all_likes acc)) (int (length (all_likes acc))) of
        Inl e \<Rightarrow> Inl e
      | Inr al \<Rightarrow>
          (case true_div rt (sum_list (all_comments acc)) (int (length (all_comments acc))) of
             Inl e \<Rightarrow> Inl e
           | Inr ac \<Rightarrow>
               (case true_div rt (sum_list (all_engagement acc))
                       (int (length (all_engagement acc))) of
                  Inl e \<Rightarrow> Inl e
                | Inr ae \<Rightarrow>
                    Inr \<lparr>avg_likes = PFloat al,
                         avg_comments = PFloat ac,
                         avg_engagement = PFloat ae,
                         avg_views = avg_views',
                         total_engagement = PInt (sum_list (all_engagement acc)),
                         total_views = total_views',
                         video_count = video_count_acc acc\<rparr>)))"

text \<open>
  The code after the loop. With videos, \<open>avg_views\<close> is \<^verbatim>\<open>sum(all_views) / len(all_views)\<close>;
  without, it is the average engagement times a fresh \<^verbatim>\<open>random.uniform(15, 25)\<close>. An
  \<open>OverflowError\<close> of a division leaves the function.
\<close>

definition summarise ::
    "'f runtime \<Rightarrow> ('f, 'w) env \<Rightarrow> hashtag_data \<Rightarrow> string list \<Rightarrow> samples \<Rightarrow> 'w
      \<Rightarrow> (py_error + 'f engagement_summary) \<times> 'w" where
  "summarise rt env hashtag_data sample_posts' acc w =
     (if all_engagement acc = [] then
        (Inr \<lparr>avg_likes = PInt (frequency hashtag_data * 1000),
              avg_comments = PInt (frequency hashtag_data * 50),
              avg_engagement = PInt (frequency hashtag_data * 1050),
              avg_views = PInt (frequency hashtag_data * 20000),
              total_engagement = PInt (frequency hashtag_data * 1050),
              total_views = PInt (frequency hashtag_data * 20000),
              video_count = 0\<rparr>, w)
      else if all_views acc \<noteq> [] then
        (case true_div rt (sum_list (all_views acc)) (int (length (all_views acc))) of
           Inl e \<Rightarrow> (Inl e, w)
         | Inr av \<Rightarrow> (averaged rt acc (PFloat av) (PInt (sum_list (all_views acc))), w))
      else
        (case true_div rt (sum_list (all_engagement acc))
                (int (length (all_engagement acc))) of
           Inl e \<Rightarrow> (Inl e, w)
         | Inr avg_engagement' \<Rightarrow>
             (case uniform_15_25 env w of
                (u, w') \<Rightarrow>
                  let avg_views' = float_mul rt avg_engagement' u;
                      total_views' = float_mul_len rt avg_views' (length sample_posts')
                  in (averaged rt acc (PFloat avg_views') (PFloat total_views'), w'))))"

definition analyze_hashtag_engagement ::
    "'f runtime \<Rightarrow> ('f, 'w) env \<Rightarrow> config \<Rightarrow> 'w \<Rightarrow> hashtag_data
      \<Rightarrow> (py_error + 'f engagement_summary) \<times> 'w" where
  "analyze_hashtag_engagement rt env cfg w hashtag_data =
     (let sample_posts' = py_take (POSTS_PER_HASHTAG cfg) (sample_posts hashtag_data) in
      if sample_posts' = [] then
        (Inr \<lparr>avg_likes = PInt (frequency hashtag_data * 1000),
              avg_comments = PInt (frequency hashtag_data * 50),
              avg_engagement = PInt (frequency hashtag_data * 1050),
              avg_views = PInt (frequency hashtag_data * 20000),
              total_engagement =
                (if sample_posts' \<noteq> []
                 then PInt (frequency hashtag_data * 1050 * int (length sample_posts'))
                 else PInt 0),
              total_views = PInt (frequency hashtag_data * 20000),
              video_count = 0\<rparr>, w)
      else
        (case sample_loop rt env sample_posts'
                \<lparr>all_likes = [], all_comments = [], all_engagement = [], all_views = [],
                 video_count_acc = 0\<rparr> w of
           (acc, w1) \<Rightarrow> summarise rt env hashtag_data sample_posts' acc w1))"

subsection \<open>Trend record builder\<close>

definition PLATFORM_NAME :: string where
  "PLATFORM_NAME = ''Instagram''"

definition DEFAULT_LANGUAGE :: string where
  "DEFAULT_LANGUAGE = ''en''"

definition INSTAGRAM_EXPLORE_URL :: string where
  "INSTAGRAM_EXPLORE_URL = ''https://www.instagram.com/explore/''"

text \<open>The dict literal stored in \<^verbatim>\<open>raw_blob\<close>, one field per key.\<close>

record 'f raw_blob =
  rb_category :: string
  rb_frequency :: int
  rb_posts_count :: int
  rb_sample_posts :: "string list"
  rb_discovery_method :: string
  rb_avg_likes :: "'f pynum"
  rb_avg_comments :: "'f pynum"
  rb_total_engagement :: "'f pynum"
  rb_total_views :: "'f pynum"
  rb_video_count :: int
  rb_posts_analyzed :: int
  rb_total_posts_scanned :: int
  rb_scroll_count :: int
  rb_min_frequency_threshold :: int
  rb_discovered_at :: datetime

record 'f TrendRecord =
  platform :: string
  url :: string
  hashtags :: "string list"
  likes :: int
  comments :: int
  views :: int
  language :: string
  timestamp :: datetime
  engagement_score :: 'f
  version :: string
  raw_blob :: "'f raw_blob"
  first_seen :: "datetime option"
  last_seen :: "datetime option"

text \<open>
  \<^verbatim>\<open>TrendRecord.from_instagram_data\<close>; \<open>now\<close> is the reading of
  \<^verbatim>\<open>datetime.utcnow()\<close> taken in its first line. Both dicts carry every key the
  function reads, as every producer in the program builds them. The arguments of the
  constructor are evaluated in order, so the first conversion that raises decides the
  exception: \<^verbatim>\<open>int\<close> of the three averages, then \<^verbatim>\<open>float\<close> of the average engagement.
\<close>

definition from_instagram_data ::
    "'f runtime \<Rightarrow> config \<Rightarrow> hashtag_data \<Rightarrow> 'f engagement_summary \<Rightarrow> string \<Rightarrow> datetime
      \<Rightarrow> py_error + 'f TrendRecord" where
  "from_instagram_data rt cfg hashtag_data engagement_data version_id now =
     (case py_int rt (avg_likes engagement_data) of
        Inl e \<Rightarrow> Inl e
      | Inr likes' \<Rightarrow>
     (case py_int rt (avg_comments engagement_data) of
        Inl e \<Rightarrow> Inl e
      | Inr comments' \<Rightarrow>
     (case py_int rt (avg_views engagement_data) of
        Inl e \<Rightarrow> Inl e
      | Inr views' \<Rightarrow>
     (case py_float rt (avg_engagement engagement_data) of
        Inl e \<Rightarrow> Inl e
      | Inr engagement_score' \<Rightarrow>
          Inr \<lparr>platform = PLATFORM_NAME,
               url = INSTAGRAM_EXPLORE_URL @ ''tags/'' @ hashtag hashtag_data @ ''/'',
               hashtags = [''#'' @ hashtag hashtag_data],
               likes = likes',
               comments = comments',
               views = views',
               language = DEFAULT_LANGUAGE,
               timestamp = now,
               engagement_score = engagement_score',
               version = version_id,
               raw_blob =
                 \<lparr>rb_category = category hashtag_data,
                  rb_frequency = frequency hashtag_data,
                  rb_posts_count = posts_count hashtag_data,
                  rb_sample_posts = sample_posts hashtag_data,
                  rb_discovery_method = ''explore_page'',
                  rb_avg_likes = avg_likes engagement_data,
                  rb_avg_comments = avg_comments engagement_data,
                  rb_total_engagement = total_engagement engagement_data,
                  rb_total_views = total_views engagement_data,
                  rb_video_count = video_count engagement_data,
                  rb_posts_analyzed = POSTS_PER_HASHTAG cfg,
                  rb_total_posts_scanned = POSTS_TO_SCAN cfg,
                  rb_scroll_count = SCROLL_COUNT cfg,
                  rb_min_frequency_threshold = MIN_HASHTAG_FREQUENCY cfg,
                  rb_discovered_at = now\<rparr>,
               first_seen = Some now,
               last_seen = Some now\<rparr>))))"

subsection \<open>Upsert writer\<close>

text \<open>The nested dict stored under \<^verbatim>\<open>metadata\<close>.\<close>

record 'f row_metadata =
  m_url :: string
  m_hashtags :: "string list"
  m_likes :: int
  m_comments :: int
  m_language :: string
  m_timestamp :: datetime
  m_version :: string
  m_first_seen :: "datetime option"
  m_last_seen :: "datetime option"
  m_raw_blob :: "'f raw_blob"

text \<open>
  A row of the \<^verbatim>\<open>instagram\<close> table, with the columns the payload names. The literal
  \<^verbatim>\<open>0.0\<close> of \<open>sentiment_polarity\<close> is the number 0.
\<close>

record 'f row =
  r_platform :: string
  topic_hashtag :: string
  r_engagement_score :: 'f
  sentiment_polarity :: rat
  sentiment_label :: string
  posts :: int
  r_views :: int
  metadata :: "'f row_metadata"
  scraped_at :: datetime
  version_id :: string

text \<open>The dict handed to \<^verbatim>\<open>update(...)\<close>: six columns.\<close>

record 'f row_update =
  u_engagement_score :: 'f
  u_posts :: int
  u_views :: int
  u_metadata :: "'f row_metadata"
  u_scraped_at :: datetime
  u_version_id :: string

text \<open>
  The Supabase client, over a store state \<open>'s\<close>. Each field is one call chain ending in
  \<^verbatim>\<open>.execute()\<close>; the result is the \<^verbatim>\<open>data\<close> list of the response, or \<open>Inl\<close>
  when the call raises:
  \<^item> \<open>select_eq s k\<close> is \<^verbatim>\<open>select('*').eq('topic_hashtag', k)\<close>;
  \<^item> \<open>update_eq s u k\<close> is \<^verbatim>\<open>update(u).eq('topic_hashtag', k)\<close>;
  \<^item> \<open>insert_row s r\<close> is \<^verbatim>\<open>insert(r)\<close>.
\<close>

record ('f, 's) client =
  select_eq :: "'s \<Rightarrow> string \<Rightarrow> py_error + 'f row list"
  update_eq :: "'s \<Rightarrow> 'f row_update \<Rightarrow> string \<Rightarrow> (py_error + 'f row list) \<times> 's"
  insert_row :: "'s \<Rightarrow> 'f row \<Rightarrow> (py_error + 'f row list) \<times> 's"

text \<open>
  The dict \<^verbatim>\<open>payload\<close>; \<open>key\<close> is \<^verbatim>\<open>trend_record.hashtags[0]\<close>. The score is a
  float already, so \<^verbatim>\<open>float(...)\<close> returns it.
\<close>

definition payload_of :: "'f TrendRecord \<Rightarrow> string \<Rightarrow> 'f row" where
  "payload_of trend_record key =
     \<lparr>r_platform = platform trend_record,
      topic_hashtag = key,
      r_engagement_score = engagement_score trend_record,
      sentiment_polarity = 0,
      sentiment_label = ''neutral'',
      posts = rb_posts_count (raw_blob trend_record),
      r_views = views trend_record,
      metadata =
        \<lparr>m_url = url trend_record,
         m_hashtags = hashtags trend_record,
         m_likes = likes trend_record,
         m_comments = comments trend_record,
         m_language = language trend_record,
         m_timestamp = timestamp trend_record,
         m_version = version trend_record,
         m_first_seen = first_seen trend_record,
         m_last_seen = last_seen trend_record,
         m_raw_blob = raw_blob trend_record\<rparr>,
      scraped_at = timestamp trend_record,
      version_id = version trend_record\<rparr>"

text \<open>The argument of \<^verbatim>\<open>update\<close>, built from six entries of the payload.\<close>

definition update_of :: "'f row \<Rightarrow> 'f row_update" where
  "update_of payload =
     \<lparr>u_engagement_score = r_engagement_score payload,
      u_posts = posts payload,
      u_views = r_views payload,
      u_metadata = metadata payload,
      u_scraped_at = scraped_at payload,
      u_version_id = version_id payload\<rparr>"

text \<open>
  \<^verbatim>\<open>save_to_supabase\<close>. Every exception of the body ends in the handler, which returns
  \<^verbatim>\<open>False\<close>; with an empty \<^verbatim>\<open>hashtags\<close> list the handler's own message raises
  \<^verbatim>\<open>IndexError\<close> again, and that one leaves the function.
\<close>

definition save_to_supabase ::
    "('f, 's) client \<Rightarrow> 's \<Rightarrow> 'f TrendRecord \<Rightarrow> (py_error + bool) \<times> 's" where
  "save_to_supabase supabase s trend_record =
     (case hashtags trend_record of
        [] \<Rightarrow> (Inl IndexError, s)
      | key # _ \<Rightarrow>
          (case select_eq supabase s key of
             Inl e \<Rightarrow> (Inr False, s)
           | Inr existing_trend \<Rightarrow>
               let payload = payload_of trend_record key in
               (case (if existing_trend \<noteq> []
                      then update_eq supabase s (update_of payload) key
                      else insert_row supabase s payload) of
                  (Inl e, s') \<Rightarrow> (Inr False, s')
                | (Inr result, s') \<Rightarrow> (Inr (result \<noteq> []), s'))))"

text \<open>
  Modelled from the spec: what update-by-key does to one row of the store collaborator's
  keyed table (the hosted table is no part of the sources). The six given columns are
  rewritten, the others kept.
\<close>

definition apply_update :: "'f row_update \<Rightarrow> 'f row \<Rightarrow> 'f row" where
  "apply_update u r =
     r\<lparr>r_engagement_score := u_engagement_score u,
       posts := u_posts u,
       r_views := u_views u,
       metadata := u_metadata u,
       scraped_at := u_scraped_at u,
       version_id := u_version_id u\<rparr>"

text \<open>
  Modelled from the spec: the store collaborator, "a keyed table with operations
  select-by-key, insert-row, update-by-key" (the hosted table is no part of the sources).
  A select answers with the rows of the key; an update rewrites every row of the key and
  answers with the rewritten rows; an insert appends the row and answers with it.
\<close>

definition table_client :: "('f, 'f row list) client" where
  "table_client =
     \<lparr>select_eq = (\<lambda>rows k. Inr (filter (\<lambda>r. topic_hashtag r = k) rows)),
      update_eq = (\<lambda>rows u k.
         (Inr (map (apply_update u) (filter (\<lambda>r. topic_hashtag r = k) rows)),
          map (\<lambda>r. if topic_hashtag r = k then apply_update u r else r) rows)),
      insert_row = (\<lambda>rows r. (Inr [r], rows @ [r]))\<rparr>"

subsection \<open>Run orchestrator: the per-hashtag loop\<close>

text \<open>
  What \<^verbatim>\<open>save_trends_to_database\<close> accumulates: the two counters it logs and prints,
  the list it returns (each entry the merge of the two dicts), and the failures it prints.
\<close>

record 'f report =
  successful :: int
  failed :: int
  saved_hashtags :: "(hashtag_data \<times> 'f engagement_summary) list"
  errors :: "(string \<times> string) list"

text \<open>\<^verbatim>\<open>str(e)\<close> of a caught exception.\<close>

fun str_of_error :: "py_error \<Rightarrow> string" where
  "str_of_error (KeyError k) = CHR 0x27 # k @ [CHR 0x27]"
| "str_of_error IndexError = ''list index out of range''"
| "str_of_error (ValueError msg) = msg"
| "str_of_error (OverflowError msg) = msg"
| "str_of_error (Raised msg) = msg"

text \<open>
  The four progress lines after the analysis format the averages with
  \<^verbatim>\<open>:,.0f\<close>, engagement first, then likes, comments and views. Formatting an int this
  way converts it to a float first, which raises \<open>OverflowError\<close> when it is too large;
  a float is formatted as it is.
\<close>

definition format_averages :: "'f runtime \<Rightarrow> 'f engagement_summary \<Rightarrow> py_error + unit" where
  "format_averages rt engagement_data =
     (case py_float rt (avg_engagement engagement_data) of
        Inl e \<Rightarrow> Inl e
      | Inr _ \<Rightarrow>
     (case py_float rt (avg_likes engagement_data) of
        Inl e \<Rightarrow> Inl e
      | Inr _ \<Rightarrow>
     (case py_float rt (avg_comments engagement_data) of
        Inl e \<Rightarrow> Inl e
      | Inr _ \<Rightarrow>
     (case py_float rt (avg_views engagement_data) of
        Inl e \<Rightarrow> Inl e
      | Inr _ \<Rightarrow> Inr ()))))"

text \<open>
  The part of one iteration before the save: the engagement analysis, the progress
  lines, then \<^verbatim>\<open>from_instagram_data\<close> with its clock reading. Whatever raises here is
  caught by the handler of the loop.
\<close>

definition build_record ::
    "'f runtime \<Rightarrow> ('f, 'w) env \<Rightarrow> config \<Rightarrow> string \<Rightarrow> hashtag_data \<Rightarrow> 'w
      \<Rightarrow> (py_error + 'f engagement_summary \<times> 'f TrendRecord) \<times> 'w" where
  "build_record rt env cfg VERSION_ID hashtag_data w =
     (case analyze_hashtag_engagement rt env cfg w hashtag_data of
        (Inl e, w1) \<Rightarrow> (Inl e, w1)
      | (Inr engagement_data, w1) \<Rightarrow>
          (case format_averages rt engagement_data of
             Inl e \<Rightarrow> (Inl e, w1)
           | Inr _ \<Rightarrow>
               (case utcnow env w1 of
                  (now, w2) \<Rightarrow>
                    (case from_instagram_data rt cfg hashtag_data engagement_data
                            VERSION_ID now of
                       Inl e \<Rightarrow> (Inl e, w2)
                     | Inr trend_record \<Rightarrow> (Inr (engagement_data, trend_record), w2)))))"

text \<open>One iteration of \<^verbatim>\<open>for i, hashtag_data in enumerate(hashtag_data_list, 1)\<close>.\<close>

definition process_hashtag ::
    "'f runtime \<Rightarrow> ('f, 'w) env \<Rightarrow> ('f, 's) client \<Rightarrow> config \<Rightarrow> string \<Rightarrow> hashtag_data
      \<Rightarrow> 'w \<times> 's \<times> 'f report \<Rightarrow> 'w \<times> 's \<times> 'f report" where
  "process_hashtag rt env supabase cfg VERSION_ID hashtag_data st =
     (case st of
        (w, s, rep) \<Rightarrow>
          (case build_record rt env cfg VERSION_ID hashtag_data w of
             (Inl e, w') \<Rightarrow>
               (w', s, rep\<lparr>failed := failed rep + 1,
                           errors := errors rep
                              @ [(hashtag hashtag_data, str_of_error e)]\<rparr>)
           | (Inr (engagement_data, trend_record), w') \<Rightarrow>
               (case save_to_supabase supabase s trend_record of
                  (Inr True, s') \<Rightarrow>
                    (w', s', rep\<lparr>successful := successful rep + 1,
                                 saved_hashtags := saved_hashtags rep
                                    @ [(hashtag_data, engagement_data)]\<rparr>)
                | (Inr False, s') \<Rightarrow>
                    (w', s', rep\<lparr>failed := failed rep + 1,
                                 errors := errors rep
                                    @ [(hashtag hashtag_data, ''Database save failed'')]\<rparr>)
                | (Inl e, s') \<Rightarrow>
                    (w', s', rep\<lparr>failed := failed rep + 1,
                                 errors := errors rep
                                    @ [(hashtag hashtag_data, str_of_error e)]\<rparr>))))"

fun save_trends_loop ::
    "'f runtime \<Rightarrow> ('f, 'w) env \<Rightarrow> ('f, 's) client \<Rightarrow> config \<Rightarrow> string \<Rightarrow> hashtag_data list
      \<Rightarrow> 'w \<times> 's \<times> 'f report \<Rightarrow> 'w \<times> 's \<times> 'f report" where
  "save_trends_loop rt env supabase cfg VERSION_ID [] st = st"
| "save_trends_loop rt env supabase cfg VERSION_ID (hashtag_data # hashtag_data_list) st =
     save_trends_loop rt env supabase cfg VERSION_ID hashtag_data_list
       (process_hashtag rt env supabase cfg VERSION_ID hashtag_data st)"

text \<open>
  \<^verbatim>\<open>save_trends_to_database\<close>: the loop from the zeroed counters. The source returns
  \<^verbatim>\<open>saved_hashtags\<close> and writes the counters and the failures to the log; the model
  returns the whole report, with the final world and store.
\<close>

definition save_trends_to_database ::
    "'f runtime \<Rightarrow> ('f, 'w) env \<Rightarrow> ('f, 's) client \<Rightarrow> config \<Rightarrow> string \<Rightarrow> 'w \<Rightarrow> 's
      \<Rightarrow> hashtag_data list \<Rightarrow> 'w \<times> 's \<times> 'f report" where
  "save_trends_to_database rt env supabase cfg VERSION_ID w s hashtag_data_list =
     save_trends_loop rt env supabase cfg VERSION_ID hashtag_data_list
       (w, s, \<lparr>successful = 0, failed = 0, saved_hashtags = [], errors = []\<rparr>)"

subsection \<open>Vocabulary of the discovery properties\<close>

text \<open>A tag the filter turns away: only digits, or shorter than 3, or longer than 30.\<close>

definition rejected :: "string \<Rightarrow> bool" where
  "rejected tag = (isdigit tag \<or> length tag < 3 \<or> length tag > 30)"


text \<open>The order in which the distinct elements of a list are first met.\<close>

fun first_occ :: "'a list \<Rightarrow> 'a list" where
  "first_occ [] = []"
| "first_occ (x # xs) = x # removeAll x (first_occ xs)"

text \<open>
  The normalized tags that reach the tally, in the order the tally meets them.
\<close>

fun tallied_tags :: "post_link list \<Rightarrow> string list" where
  "tallied_tags [] = []"
| "tallied_tags (Inl e # post_links) = tallied_tags post_links"
| "tallied_tags (Inr (tags, post_url) # post_links) =
     map lower (filter (\<lambda>tag. \<not> rejected tag) tags) @ tallied_tags post_links"

text \<open>
  The ranking as the specification words it: tally a frequency per normalized tag, drop the
  tags below the minimum, sort the survivors by descending frequency (stable, so ties stay
  in first-met order), keep the first \<open>top_n\<close>.
\<close>

definition collect_spec :: "int \<Rightarrow> int \<Rightarrow> string list \<Rightarrow> (string \<times> int) list" where
  "collect_spec min_frequency top_n tags =
     take (nat top_n)
       (sort_key (\<lambda>(tag, count). - count)
          (filter (\<lambda>(tag, count). count \<ge> min_frequency)
             (map (\<lambda>tag. (tag, int (count_list tags tag))) (first_occ tags))))"


definition keys_mapped :: "tally \<Rightarrow> bool" where
  "keys_mapped st = (fst ` set (hashtag_counter st) \<subseteq> dom (post_hashtags_map st))"

subsection \<open>Vocabulary of the aggregation properties\<close>

text \<open>
  The samples: the dicts that \<^verbatim>\<open>get_post_engagement\<close> returns along the sampling loop,
  one per post, in order, threading the world.
\<close>

fun fetched :: "'f runtime \<Rightarrow> ('f, 'w) env \<Rightarrow> 'w \<Rightarrow> string list \<Rightarrow> post_engagement list" where
  "fetched rt env w [] = []"
| "fetched rt env w (post_url # rest) =
     (case get_post_engagement rt env w post_url of
        (engagement, w') \<Rightarrow>
          engagement # fetched rt env (if rest \<noteq> [] then goto_explore env w' else w') rest)"

text \<open>The world once the sampling loop has visited every post.\<close>

fun world_after :: "'f runtime \<Rightarrow> ('f, 'w) env \<Rightarrow> 'w \<Rightarrow> string list \<Rightarrow> 'w" where
  "world_after rt env w [] = w"
| "world_after rt env w (post_url # rest) =
     (case get_post_engagement rt env w post_url of
        (engagement, w') \<Rightarrow>
          world_after rt env (if rest \<noteq> [] then goto_explore env w' else w') rest)"

text \<open>
  A runtime to run the definitions on concrete inputs: floats are rationals and the
  arithmetic is exact, without rounding, overflow or NaN. It agrees with the interpreter
  wherever every value met is a float the interpreter represents exactly, as the small
  whole numbers and halves of the examples are.
\<close>

definition exact_runtime :: "rat runtime" where
  "exact_runtime =
     \<lparr>float_of_int = (\<lambda>i. Inr (of_int i)),
      int_of_float = (\<lambda>x. Inr (if 0 \<le> x then \<lfloor>x\<rfloor> else \<lceil>x\<rceil>)),
      true_div = (\<lambda>i j. if j = 0 then Inl (Raised ''division by zero'')
                          else Inr (of_int i / of_int j)),
      float_mul = (\<lambda>x y. x * y),
      float_mul_len = (\<lambda>x n. x * of_nat n),
      int_mul_float = (\<lambda>i x. Inr (of_int i * x))\<rparr>"

text \<open>
  The exact runtime with the one limit of a double that a conversion of the record builder
  can meet on an int: \<^verbatim>\<open>float(i)\<close> raises \<open>OverflowError\<close> once \<open>i\<close> rounds beyond the
  largest double, that is from \<open>2 ^ 1024 - 2 ^ 970\<close> on in absolute value.
\<close>

definition limited_runtime :: "rat runtime" where
  "limited_runtime =
     exact_runtime
       \<lparr>float_of_int := (\<lambda>i. if 2 ^ 1024 - 2 ^ 970 \<le> \<bar>i\<bar>
                               then Inl (OverflowError ''int too large to convert to float'')
                               else Inr (of_int i))\<rparr>"

subsection \<open>Vocabulary of the writer properties\<close>

text \<open>
  The store operation behind one save fails: the lookup raises, or the write (the update
  when the lookup found rows, the insert otherwise) raises or answers with no data.
\<close>

definition store_op_fails :: "('f, 's) client \<Rightarrow> 's \<Rightarrow> 'f TrendRecord \<Rightarrow> bool" where
  "store_op_fails supabase s trend_record =
     (case hashtags trend_record of
        [] \<Rightarrow> False
      | key # _ \<Rightarrow>
          (case select_eq supabase s key of
             Inl e \<Rightarrow> True
           | Inr existing_trend \<Rightarrow>
               (case fst (if existing_trend \<noteq> []
                          then update_eq supabase s (update_of (payload_of trend_record key)) key
                          else insert_row supabase s (payload_of trend_record key)) of
                  Inl e \<Rightarrow> True
                | Inr result \<Rightarrow> result = [])))"

section \<open>Properties\<close>

subsection \<open>Categorizer\<close>

lemma any_keyword_in_iff: "any_keyword_in kws t \<longleftrightarrow> (\<exists>k \<in> set kws. sublist k t)"
  by (induction kws) auto

lemma categorize_in_first_match:
  "(\<exists>i < length T. entry_matches t (T ! i) \<and> (\<forall>j < i. \<not> entry_matches t (T ! j))
        \<and> categorize_in T t = fst (T ! i))
   \<or> ((\<forall>i < length T. \<not> entry_matches t (T ! i)) \<and> categorize_in T t = ''general'')"
proof (induction T)
  case Nil
  show ?case by simp
next
  case (Cons e T)
  obtain c kws where e: "e = (c, kws)" by (cases e)
  show ?case
  proof (cases "entry_matches t e")
    case True
    then have "categorize_in (e # T) t = fst ((e # T) ! 0)"
      by (simp add: e entry_matches_def any_keyword_in_iff)
    with True show ?thesis by (intro disjI1 exI [of _ 0]) simp
  next
    case False
    then have step: "categorize_in (e # T) t = categorize_in T t"
      by (simp add: e entry_matches_def any_keyword_in_iff)
    from Cons.IH show ?thesis
    proof (elim disjE exE conjE)
      fix i
      assume i: "i < length T" "entry_matches t (T ! i)"
        "\<forall>j < i. \<not> entry_matches t (T ! j)" "categorize_in T t = fst (T ! i)"
      have "\<forall>j < Suc i. \<not> entry_matches t ((e # T) ! j)"
        using False i(3) by (auto simp: less_Suc_eq_0_disj)
      with i step show ?thesis
        by (intro disjI1 exI [of _ "Suc i"]) simp
    next
      assume n: "\<forall>i < length T. \<not> entry_matches t (T ! i)" "categorize_in T t = ''general''"
      have "\<forall>i < length (e # T). \<not> entry_matches t ((e # T) ! i)"
        using False n(1) by (auto simp: less_Suc_eq_0_disj)
      with n step show ?thesis by simp
    qed
  qed
qed

lemma categorize_techlife: "categorize_hashtag ''techlife'' = ''technology''"
  by code_simp

lemma lifestyle_matches_techlife:
  "entry_matches (lower ''techlife'') (HASHTAG_CATEGORIES ! 7)
   \<and> fst (HASHTAG_CATEGORIES ! 7) = ''lifestyle''"
proof -
  have "sublist ''life'' ''techlife''" by code_simp
  moreover have "lower ''techlife'' = ''techlife''" by code_simp
  moreover have "''life'' \<in> set (snd (HASHTAG_CATEGORIES ! 7))"
    by (simp add: HASHTAG_CATEGORIES_def)
  moreover have "fst (HASHTAG_CATEGORIES ! 7) = ''lifestyle''"
    by (simp add: HASHTAG_CATEGORIES_def)
  ultimately show ?thesis unfolding entry_matches_def by metis
qed

text \<open>
  C6. \<open>categorize_hashtag\<close> is a function of its argument alone, defined on every string:
  it returns the name of the first table entry (in declaration order) one of whose keywords
  is a substring of the lowercased tag, and \<open>general\<close> when no entry matches. On
  \<open>techlife\<close> it returns \<open>technology\<close>, although the later \<open>lifestyle\<close> entry matches too.
\<close>

theorem categorize_hashtag_first_match:
  "((\<exists>i < length HASHTAG_CATEGORIES.
        entry_matches (lower tag) (HASHTAG_CATEGORIES ! i)
      \<and> (\<forall>j < i. \<not> entry_matches (lower tag) (HASHTAG_CATEGORIES ! j))
      \<and> categorize_hashtag tag = fst (HASHTAG_CATEGORIES ! i))
    \<or> ((\<forall>i < length HASHTAG_CATEGORIES. \<not> entry_matches (lower tag) (HASHTAG_CATEGORIES ! i))
      \<and> categorize_hashtag tag = ''general''))
   \<and> categorize_hashtag ''techlife'' = ''technology''
   \<and> entry_matches (lower ''techlife'') (HASHTAG_CATEGORIES ! 7)
   \<and> fst (HASHTAG_CATEGORIES ! 7) = ''lifestyle''"
  unfolding categorize_hashtag_def [of tag]
  using categorize_in_first_match [of HASHTAG_CATEGORIES "lower tag"]
    categorize_techlife lifestyle_matches_techlife
  by blast

theorem categorize_hashtag_first_match_witness:
  "(\<exists>i < length HASHTAG_CATEGORIES.
       entry_matches (lower ''TechLife'') (HASHTAG_CATEGORIES ! i)
     \<and> (\<forall>j < i. \<not> entry_matches (lower ''TechLife'') (HASHTAG_CATEGORIES ! j))
     \<and> categorize_hashtag ''TechLife'' = fst (HASHTAG_CATEGORIES ! i))
   \<and> categorize_hashtag ''TechLife'' = ''technology''"
proof -
  have t: "categorize_hashtag ''TechLife'' = ''technology''" by code_simp
  then have "categorize_hashtag ''TechLife'' \<noteq> ''general''" by simp
  with t show ?thesis
    using categorize_hashtag_first_match [of "''TechLife''"] by blast
qed

subsection \<open>Discovery collector: the filter\<close>

lemma length_lower [simp]: "length (lower s) = length s"
  by (simp add: lower_def)

lemma is_digit_lower_char [simp]: "is_digit_char (lower_char c) = is_digit_char c"
  by (auto simp: is_digit_char_def lower_char_def)

lemma isdigit_lower [simp]: "isdigit (lower s) = isdigit s"
  by (induction s) (auto simp: isdigit_def lower_def)

lemma rejected_lower [simp]: "rejected (lower s) = rejected s"
  by (simp add: rejected_def)




lemma py_take_map: "py_take n (map f xs) = map f (py_take n xs)"
  by (simp add: py_take_def take_map)

lemma set_py_take: "set (py_take n xs) \<subseteq> set xs"
  by (auto simp: py_take_def dest: in_set_takeD)

lemma keys_counter_incr: "fst ` set (counter_incr k cs) = insert k (fst ` set cs)"
  by (induction k cs rule: counter_incr.induct) auto

lemma hashtag_counter_tally_tag:
  "hashtag_counter (tally_tag post_url tag st) =
     (if rejected tag then hashtag_counter st
      else counter_incr (lower tag) (hashtag_counter st))"
  by (auto simp: tally_tag_def Let_def rejected_def)





lemma build_hashtag_data_tags:
  "build_hashtag_data cfg st tags = Inr hs \<Longrightarrow> map hashtag hs = tags"
  by (induction tags arbitrary: hs) (auto split: option.splits sum.splits)

lemma set_top_hashtags_of: "set (top_hashtags_of cfg st) \<subseteq> fst ` set (hashtag_counter st)"
proof -
  have "set (top_hashtags_of cfg st)
        \<subseteq> set (map fst (filter (\<lambda>(tag, count). count \<ge> MIN_HASHTAG_FREQUENCY cfg)
                        (most_common (hashtag_counter st))))"
    unfolding top_hashtags_of_def by (rule set_py_take)
  also have "\<dots> \<subseteq> fst ` set (hashtag_counter st)"
    by (auto simp: most_common_def)
  finally show ?thesis .
qed




subsection \<open>Discovery collector: the ranking\<close>

lemma set_first_occ [simp]: "set (first_occ xs) = set xs"
  by (induction xs) auto

lemma distinct_first_occ [simp]: "distinct (first_occ xs)"
  by (induction xs) (auto simp: distinct_removeAll)

lemma first_occ_snoc:
  "first_occ (xs @ [t]) = (if t \<in> set xs then first_occ xs else first_occ xs @ [t])"
  by (induction xs) auto

lemma counter_incr_map:
  "distinct L \<Longrightarrow> counter_incr t (map (\<lambda>x. (x, f x)) L) =
     (if t \<in> set L then map (\<lambda>x. (x, if x = t then f x + 1 else f x)) L
      else map (\<lambda>x. (x, f x)) L @ [(t, 1)])"
  by (induction L) auto

lemma foldl_counter_incr:
  "foldl (\<lambda>c t. counter_incr t c) [] tags
   = map (\<lambda>t. (t, int (count_list tags t))) (first_occ tags)"
proof (induction tags rule: rev_induct)
  case Nil
  show ?case by simp
next
  case (snoc t tags)
  show ?case
    by (auto simp: snoc.IH counter_incr_map first_occ_snoc)
qed

lemma counter_tally_tags:
  "hashtag_counter (tally_tags post_url tags st)
   = foldl (\<lambda>c t. counter_incr t c) (hashtag_counter st)
       (map lower (filter (\<lambda>tag. \<not> rejected tag) tags))"
  by (induction tags arbitrary: st) (simp_all add: hashtag_counter_tally_tag)

lemma counter_tally_posts:
  "hashtag_counter (tally_posts post_links st)
   = foldl (\<lambda>c t. counter_incr t c) (hashtag_counter st) (tallied_tags post_links)"
  by (induction post_links st rule: tally_posts.induct) (simp_all add: counter_tally_tags)

lemma counter_tally_posts_empty:
  "hashtag_counter (tally_posts post_links \<lparr>hashtag_counter = [], post_hashtags_map = Map.empty\<rparr>)
   = map (\<lambda>t. (t, int (count_list (tallied_tags post_links) t))) (first_occ (tallied_tags post_links))"
  by (simp add: counter_tally_posts foldl_counter_incr)

lemma keys_mapped_tally_tag: "keys_mapped st \<Longrightarrow> keys_mapped (tally_tag post_url tag st)"
  unfolding keys_mapped_def
  by (auto simp: tally_tag_def Let_def keys_counter_incr)

lemma keys_mapped_tally_tags: "keys_mapped st \<Longrightarrow> keys_mapped (tally_tags post_url tags st)"
  by (induction tags arbitrary: st) (simp_all add: keys_mapped_tally_tag)

lemma keys_mapped_tally_posts: "keys_mapped st \<Longrightarrow> keys_mapped (tally_posts post_links st)"
  by (induction post_links st rule: tally_posts.induct) (simp_all add: keys_mapped_tally_tags)

lemma keys_mapped_empty: "keys_mapped \<lparr>hashtag_counter = [], post_hashtags_map = Map.empty\<rparr>"
  by (simp add: keys_mapped_def)

lemma build_hashtag_data_succeeds:
  "set tags \<subseteq> dom (post_hashtags_map st) \<Longrightarrow> \<exists>hs. build_hashtag_data cfg st tags = Inr hs"
  by (induction tags) auto

lemma build_hashtag_data_pairs:
  "build_hashtag_data cfg st tags = Inr hs \<Longrightarrow>
   map (\<lambda>h. (hashtag h, frequency h)) hs
   = map (\<lambda>t. (t, counter_get (hashtag_counter st) t)) tags"
  by (induction tags arbitrary: hs) (auto split: option.splits sum.splits)

lemma counter_get_distinct:
  "distinct (map fst cs) \<Longrightarrow> (t, c) \<in> set cs \<Longrightarrow> counter_get cs t = c"
  by (induction cs) (auto simp: rev_image_eqI)

lemma counter_get_items:
  "distinct (map fst cs) \<Longrightarrow> set xs \<subseteq> set cs \<Longrightarrow>
   map (\<lambda>t. (t, counter_get cs t)) (map fst xs) = xs"
  by (induction xs) (auto simp: counter_get_distinct)

lemma discover_pairs:
  fixes cfg all_links
  defines "st \<equiv> tally_posts (py_take (POSTS_TO_SCAN cfg) all_links)
                  \<lparr>hashtag_counter = [], post_hashtags_map = Map.empty\<rparr>"
  assumes d: "distinct (map fst (hashtag_counter st))"
  shows "map (\<lambda>h. (hashtag h, frequency h)) (discover_trending_hashtags cfg (Inr all_links))
         = py_take (TOP_HASHTAGS_TO_SAVE cfg)
             (filter (\<lambda>(tag, count). count \<ge> MIN_HASHTAG_FREQUENCY cfg)
                (most_common (hashtag_counter st)))"
    (is "map ?p ?out = py_take ?n ?xs")
proof -
  have top: "top_hashtags_of cfg st = map fst (py_take ?n ?xs)"
    by (simp add: top_hashtags_of_def py_take_map)
  have "keys_mapped st"
    unfolding st_def by (rule keys_mapped_tally_posts [OF keys_mapped_empty])
  then have "set (top_hashtags_of cfg st) \<subseteq> dom (post_hashtags_map st)"
    using set_top_hashtags_of [of cfg st] unfolding keys_mapped_def by blast
  then obtain hs where hs: "build_hashtag_data cfg st (top_hashtags_of cfg st) = Inr hs"
    using build_hashtag_data_succeeds by blast
  have tags: "map hashtag hs = top_hashtags_of cfg st"
    using hs by (rule build_hashtag_data_tags)
  have "?out = (if top_hashtags_of cfg st = [] then [] else hs)"
    using hs by (simp add: discover_trending_hashtags_def Let_def st_def)
  moreover have "top_hashtags_of cfg st = [] \<Longrightarrow> hs = []"
    using tags by simp
  ultimately have out: "?out = hs" by auto
  have "set (py_take ?n ?xs) \<subseteq> set (hashtag_counter st)"
    using set_py_take [of ?n ?xs] by (auto simp: most_common_def)
  then have "map (\<lambda>t. (t, counter_get (hashtag_counter st) t)) (map fst (py_take ?n ?xs))
             = py_take ?n ?xs"
    by (rule counter_get_items [OF d])
  then show ?thesis
    using build_hashtag_data_pairs [OF hs] by (simp add: out top)
qed

lemma prefix_py_take: "prefix (py_take n xs) xs"
  by (simp add: py_take_def take_is_prefix)

lemma sorted_wrt_py_take: "sorted_wrt R xs \<Longrightarrow> sorted_wrt R (py_take n xs)"
  by (simp add: py_take_def)

lemma most_common_sorted:
  "sorted_wrt (\<lambda>a b. snd a \<ge> snd b) (most_common items)"
proof -
  have "sorted (map (\<lambda>(tag, count). - count) (most_common items))"
    unfolding most_common_def by (rule sorted_sort_key)
  then show ?thesis
    by (simp add: sorted_map case_prod_beta)
qed

lemma most_common_stable:
  "filter (\<lambda>y. snd y = k) (most_common items) = filter (\<lambda>y. snd y = k) items"
proof -
  have "filter (\<lambda>y. (\<lambda>(tag, count). - count) y = - k) (sort_key (\<lambda>(tag, count). - count) items)
        = filter (\<lambda>y. (\<lambda>(tag, count). - count) y = - k) items"
    by (rule sort_key_stable)
  then show ?thesis
    by (simp add: most_common_def case_prod_beta)
qed

text \<open>
  C3. With a non-negative top-N, the tags and frequencies returned by
  \<open>discover_trending_hashtags\<close> are those of the specification's ranking: the normalized
  tags whose tallied frequency reaches the minimum, in descending frequency, cut to top-N.
  The result is sorted by descending frequency, and for every frequency the returned tags
  of that frequency are an initial part of the first-met order of the tags having it.
\<close>

theorem discover_ranked:
  fixes cfg all_links
  defines "tags \<equiv> tallied_tags (py_take (POSTS_TO_SCAN cfg) all_links)"
  defines "out \<equiv> discover_trending_hashtags cfg (Inr all_links)"
  assumes top: "0 \<le> TOP_HASHTAGS_TO_SAVE cfg"
  shows "map (\<lambda>h. (hashtag h, frequency h)) out
           = collect_spec (MIN_HASHTAG_FREQUENCY cfg) (TOP_HASHTAGS_TO_SAVE cfg) tags
       \<and> sorted_wrt (\<lambda>a b. frequency a \<ge> frequency b) out
       \<and> (\<forall>k. prefix (map hashtag (filter (\<lambda>h. frequency h = k) out))
                      (filter (\<lambda>t. int (count_list tags t) = k) (first_occ tags)))"
proof -
  define C where "C = map (\<lambda>t. (t, int (count_list tags t))) (first_occ tags)"
  define P where "P = (\<lambda>(tag :: string, count). count \<ge> MIN_HASHTAG_FREQUENCY cfg)"
  define ps where "ps = map (\<lambda>h. (hashtag h, frequency h)) out"
  have counter: "hashtag_counter (tally_posts (py_take (POSTS_TO_SCAN cfg) all_links)
                   \<lparr>hashtag_counter = [], post_hashtags_map = Map.empty\<rparr>) = C"
    unfolding C_def tags_def by (rule counter_tally_posts_empty)
  have "distinct (map fst C)"
    by (simp add: C_def comp_def)
  then have ps: "ps = py_take (TOP_HASHTAGS_TO_SAVE cfg) (filter P (most_common C))"
    unfolding ps_def out_def P_def
    using discover_pairs [of cfg all_links] by (simp add: counter)
  have refine: "ps = collect_spec (MIN_HASHTAG_FREQUENCY cfg) (TOP_HASHTAGS_TO_SAVE cfg) tags"
    using top
    by (simp add: ps collect_spec_def py_take_def most_common_def filter_sort C_def P_def)
  have "sorted_wrt (\<lambda>a b. snd a \<ge> snd b) ps"
    unfolding ps
    by (intro sorted_wrt_py_take sorted_wrt_filter most_common_sorted)
  then have sorted: "sorted_wrt (\<lambda>a b. frequency a \<ge> frequency b) out"
    by (simp add: ps_def sorted_wrt_map)
  have stable: "prefix (map hashtag (filter (\<lambda>h. frequency h = k) out))
                       (filter (\<lambda>t. int (count_list tags t) = k) (first_occ tags))" for k
  proof -
    let ?Q = "\<lambda>y :: string \<times> int. snd y = k"
    have "prefix (filter ?Q ps) (filter ?Q (filter P (most_common C)))"
      unfolding ps by (intro filter_mono_prefix prefix_py_take)
    moreover have "filter ?Q (filter P (most_common C)) = filter P (filter ?Q C)"
    proof -
      have "filter ?Q (filter P (most_common C)) = filter P (filter ?Q (most_common C))"
        by (simp add: conj_commute)
      then show ?thesis by (simp only: most_common_stable)
    qed
    moreover have "filter P (filter ?Q C) = (if k \<ge> MIN_HASHTAG_FREQUENCY cfg then filter ?Q C else [])"
      by (auto simp: P_def case_prod_beta filter_empty_conv intro!: filter_cong)
    ultimately have "prefix (filter ?Q ps) (filter ?Q C)"
      by (simp split: if_splits)
    then have "prefix (map fst (filter ?Q ps)) (map fst (filter ?Q C))"
      by (rule map_mono_prefix)
    moreover have "map fst (filter ?Q ps) = map hashtag (filter (\<lambda>h. frequency h = k) out)"
      by (simp add: ps_def filter_map comp_def)
    moreover have "map fst (filter ?Q C) = filter (\<lambda>t. int (count_list tags t) = k) (first_occ tags)"
      by (simp add: C_def filter_map comp_def)
    ultimately show ?thesis by simp
  qed
  from refine sorted stable show ?thesis
    unfolding ps_def by blast
qed

theorem discover_ranked_witness:
  "0 \<le> TOP_HASHTAGS_TO_SAVE \<lparr>SCROLL_COUNT = 15, POSTS_TO_SCAN = 400, MIN_HASHTAG_FREQUENCY = 2,
          TOP_HASHTAGS_TO_SAVE = 2, POSTS_PER_HASHTAG = 3\<rparr>
   \<and> map (\<lambda>h. (hashtag h, frequency h))
        (discover_trending_hashtags
           \<lparr>SCROLL_COUNT = 15, POSTS_TO_SCAN = 400, MIN_HASHTAG_FREQUENCY = 2,
             TOP_HASHTAGS_TO_SAVE = 2, POSTS_PER_HASHTAG = 3\<rparr>
           (Inr [Inr ([''aaa'', [CHR 0xC9, CHR ''T'', CHR 0xC9], ''ccc'', ''ddd''], ''/p/1''),
                 Inr ([''ddd'', [CHR 0xE9, CHR ''t'', CHR 0xE9], ''Ccc'', ''ddd'', ''99''],
                      ''/p/2'')]))
     = [(''ddd'', 3), ([CHR 0xE9, CHR ''t'', CHR 0xE9], 2)]"
proof -
  have c: "collect_spec 2 2 (tallied_tags (py_take 400
             [Inr ([''aaa'', [CHR 0xC9, CHR ''T'', CHR 0xC9], ''ccc'', ''ddd''], ''/p/1''),
              Inr ([''ddd'', [CHR 0xE9, CHR ''t'', CHR 0xE9], ''Ccc'', ''ddd'', ''99''],
                   ''/p/2'')]))
           = [(''ddd'', 3), ([CHR 0xE9, CHR ''t'', CHR 0xE9], 2)]"
    by code_simp
  have h: "0 \<le> TOP_HASHTAGS_TO_SAVE \<lparr>SCROLL_COUNT = 15, POSTS_TO_SCAN = 400, MIN_HASHTAG_FREQUENCY = 2,
          TOP_HASHTAGS_TO_SAVE = 2, POSTS_PER_HASHTAG = 3\<rparr>" by simp
  show ?thesis
    using h c discover_ranked [OF h, of
        "[Inr ([''aaa'', [CHR 0xC9, CHR ''T'', CHR 0xC9], ''ccc'', ''ddd''], ''/p/1''),
          Inr ([''ddd'', [CHR 0xE9, CHR ''t'', CHR 0xE9], ''Ccc'', ''ddd'', ''99''],
               ''/p/2'')]"]
    by simp
qed

subsection \<open>Engagement aggregator\<close>

text \<open>
  The sampling loop gathers, post by post, the fields of the dicts that
  \<^verbatim>\<open>get_post_engagement\<close> returns; the views and the video count come from the dicts
  flagged \<open>is_video\<close> only.
\<close>

lemma sample_loop_eq:
  "sample_loop rt env post_urls acc w =
     (foldl (\<lambda>a e. add_sample e a) acc (fetched rt env w post_urls),
      world_after rt env w post_urls)"
proof (induction post_urls arbitrary: acc w)
  case Nil
  show ?case by simp
next
  case (Cons post_url rest)
  obtain e w' where g: "get_post_engagement rt env w post_url = (e, w')"
    by (cases "get_post_engagement rt env w post_url")
  show ?case
    by (simp add: g Cons.IH)
qed

lemma foldl_add_sample:
  "foldl (\<lambda>a e. add_sample e a) acc F =
     acc\<lparr>all_likes := all_likes acc @ map p_likes F,
         all_comments := all_comments acc @ map p_comments F,
         all_engagement := all_engagement acc @ map p_total_engagement F,
         all_views := all_views acc @ map p_views (filter is_video F),
         video_count_acc := video_count_acc acc + int (length (filter is_video F))\<rparr>"
  by (induction F arbitrary: acc) (simp_all add: add_sample_def)

lemma sample_loop_empty_acc:
  "sample_loop rt env post_urls
     \<lparr>all_likes = [], all_comments = [], all_engagement = [], all_views = [],
      video_count_acc = 0\<rparr> w =
     (\<lparr>all_likes = map p_likes (fetched rt env w post_urls),
       all_comments = map p_comments (fetched rt env w post_urls),
       all_engagement = map p_total_engagement (fetched rt env w post_urls),
       all_views = map p_views (filter is_video (fetched rt env w post_urls)),
       video_count_acc = int (length (filter is_video (fetched rt env w post_urls)))\<rparr>,
      world_after rt env w post_urls)"
  by (simp add: sample_loop_eq foldl_add_sample)

lemma length_fetched [simp]: "length (fetched rt env w post_urls) = length post_urls"
  by (induction post_urls arbitrary: w) (auto split: prod.splits)

lemma fetched_eq_Nil [simp]: "fetched rt env w post_urls = [] \<longleftrightarrow> post_urls = []"
  by (metis length_fetched length_0_conv)

lemma analyze_empty:
  "py_take (POSTS_PER_HASHTAG cfg) (sample_posts h) = [] \<Longrightarrow>
   analyze_hashtag_engagement rt env cfg w h =
     (Inr \<lparr>avg_likes = PInt (frequency h * 1000),
           avg_comments = PInt (frequency h * 50),
           avg_engagement = PInt (frequency h * 1050),
           avg_views = PInt (frequency h * 20000),
           total_engagement = PInt 0,
           total_views = PInt (frequency h * 20000),
           video_count = 0\<rparr>, w)"
  by (simp add: analyze_hashtag_engagement_def)

lemma analyze_nonempty:
  "py_take (POSTS_PER_HASHTAG cfg) (sample_posts h) \<noteq> [] \<Longrightarrow>
   analyze_hashtag_engagement rt env cfg w h =
     summarise rt env h (py_take (POSTS_PER_HASHTAG cfg) (sample_posts h))
       \<lparr>all_likes = map p_likes (fetched rt env w (py_take (POSTS_PER_HASHTAG cfg) (sample_posts h))),
        all_comments = map p_comments (fetched rt env w (py_take (POSTS_PER_HASHTAG cfg) (sample_posts h))),
        all_engagement = map p_total_engagement (fetched rt env w (py_take (POSTS_PER_HASHTAG cfg) (sample_posts h))),
        all_views = map p_views (filter is_video (fetched rt env w (py_take (POSTS_PER_HASHTAG cfg) (sample_posts h)))),
        video_count_acc = int (length (filter is_video (fetched rt env w (py_take (POSTS_PER_HASHTAG cfg) (sample_posts h)))))\<rparr>
       (world_after rt env w (py_take (POSTS_PER_HASHTAG cfg) (sample_posts h)))"
  by (simp add: analyze_hashtag_engagement_def sample_loop_empty_acc Let_def)

lemma averaged_Inr:
  "averaged rt acc av tv = Inr s \<Longrightarrow>
     avg_views s = av \<and> total_views s = tv \<and> video_count s = video_count_acc acc
     \<and> total_engagement s = PInt (sum_list (all_engagement acc))
     \<and> (\<exists>al. true_div rt (sum_list (all_likes acc)) (int (length (all_likes acc))) = Inr al
            \<and> avg_likes s = PFloat al)
     \<and> (\<exists>ac. true_div rt (sum_list (all_comments acc)) (int (length (all_comments acc))) = Inr ac
            \<and> avg_comments s = PFloat ac)
     \<and> (\<exists>ae. true_div rt (sum_list (all_engagement acc)) (int (length (all_engagement acc))) = Inr ae
            \<and> avg_engagement s = PFloat ae)"
  by (auto simp: averaged_def split: sum.splits)

lemma averaged_success:
  "true_div rt (sum_list (all_likes acc)) (int (length (all_likes acc))) = Inr al \<Longrightarrow>
   true_div rt (sum_list (all_comments acc)) (int (length (all_comments acc))) = Inr ac \<Longrightarrow>
   true_div rt (sum_list (all_engagement acc)) (int (length (all_engagement acc))) = Inr ae \<Longrightarrow>
   averaged rt acc av tv =
     Inr \<lparr>avg_likes = PFloat al, avg_comments = PFloat ac, avg_engagement = PFloat ae,
          avg_views = av, total_engagement = PInt (sum_list (all_engagement acc)),
          total_views = tv, video_count = video_count_acc acc\<rparr>"
  by (simp add: averaged_def)

lemma summarise_video:
  "all_engagement acc \<noteq> [] \<Longrightarrow> all_views acc \<noteq> [] \<Longrightarrow>
   summarise rt env h sp acc w =
     (case true_div rt (sum_list (all_views acc)) (int (length (all_views acc))) of
        Inl e \<Rightarrow> (Inl e, w)
      | Inr av \<Rightarrow> (averaged rt acc (PFloat av) (PInt (sum_list (all_views acc))), w))"
  by (simp add: summarise_def)

lemma summarise_no_video:
  "all_engagement acc \<noteq> [] \<Longrightarrow> all_views acc = [] \<Longrightarrow>
   summarise rt env h sp acc w =
     (case true_div rt (sum_list (all_engagement acc)) (int (length (all_engagement acc))) of
        Inl e \<Rightarrow> (Inl e, w)
      | Inr ae \<Rightarrow>
          (averaged rt acc (PFloat (float_mul rt ae (fst (uniform_15_25 env w))))
             (PFloat (float_mul_len rt (float_mul rt ae (fst (uniform_15_25 env w)))
                        (length sp))),
           snd (uniform_15_25 env w)))"
  by (simp add: summarise_def Let_def split: sum.splits prod.splits)

lemma summarise_unsampled:
  "all_engagement acc = [] \<Longrightarrow>
   summarise rt env h sp acc w =
     (Inr \<lparr>avg_likes = PInt (frequency h * 1000),
           avg_comments = PInt (frequency h * 50),
           avg_engagement = PInt (frequency h * 1050),
           avg_views = PInt (frequency h * 20000),
           total_engagement = PInt (frequency h * 1050),
           total_views = PInt (frequency h * 20000),
           video_count = 0\<rparr>, w)"
  by (simp add: summarise_def)

text \<open>
  What \<^verbatim>\<open>get_post_engagement\<close> puts into \<open>views\<close>: the count read from the page when
  the post is a video and a count was read, its own estimate otherwise; when the scrape
  raises, the fallback dict.
\<close>

lemma get_post_engagement_views_read:
  assumes "scrape env w0 u = (Inr d, w1)" and "s_is_video d" and "s_views d \<noteq> 0"
  shows "is_video (fst (get_post_engagement rt env w0 u))"
    and "p_views (fst (get_post_engagement rt env w0 u)) = s_views d"
  using assms by (simp_all add: get_post_engagement_def split: prod.splits)

lemma fallback_engagement_not_video:
  "\<not> is_video (fst (fallback_engagement env w))"
  by (simp add: fallback_engagement_def split: prod.splits)

lemma get_post_engagement_views_estimated:
  assumes "scrape env w0 u = (Inr d, w1)" and "s_is_video d" and "s_views d = 0"
    and "is_video (fst (get_post_engagement rt env w0 u))"
  shows "\<exists>x. int_mul_float rt (p_likes (fst (get_post_engagement rt env w0 u))
                               + p_comments (fst (get_post_engagement rt env w0 u)))
                (fst (uniform_15_25 env (snd (estimate_likes env d w1)))) = Inr x
            \<and> int_of_float rt x = Inr (p_views (fst (get_post_engagement rt env w0 u)))"
proof -
  obtain l c w2 where e: "estimate_likes env d w1 = ((l, c), w2)"
    by (cases "estimate_likes env d w1") auto
  obtain uu w3 where u: "uniform_15_25 env w2 = (uu, w3)"
    by (cases "uniform_15_25 env w2")
  show ?thesis
    using assms fallback_engagement_not_video [of env w3]
    by (auto simp: get_post_engagement_def e u split: sum.splits)
qed

lemma get_post_engagement_scrape_raises:
  "scrape env w0 u = (Inl e, w1) \<Longrightarrow>
   get_post_engagement rt env w0 u = fallback_engagement env w1"
  by (simp add: get_post_engagement_def)

lemma summarise_sampled_total:
  assumes "all_engagement acc \<noteq> []" and "fst (summarise rt env h sp acc w) = Inr s"
  shows "total_engagement s = PInt (sum_list (all_engagement acc))"
proof (cases "all_views acc = []")
  case True
  with assms show ?thesis
    by (auto simp: summarise_no_video split: sum.splits dest: averaged_Inr)
next
  case False
  with assms show ?thesis
    by (auto simp: summarise_video split: sum.splits dest: averaged_Inr)
qed

text \<open>
  C4. When the observation has no sample post, \<open>analyze_hashtag_engagement\<close> returns a
  summary, not an exception, and leaves the page alone: \<open>avg_likes\<close> is the frequency times
  1000, \<open>avg_comments\<close> the frequency times 50, \<open>avg_engagement\<close> the frequency times 1050,
  the views figures the frequency times 20000. Frequency 4 gives 4000 likes and 200 comments.
\<close>
theorem analyze_empty_samples_linear:
  assumes "sample_posts h = []"
  shows "analyze_hashtag_engagement rt env cfg w h =
     (Inr \<lparr>avg_likes = PInt (frequency h * 1000),
           avg_comments = PInt (frequency h * 50),
           avg_engagement = PInt (frequency h * 1050),
           avg_views = PInt (frequency h * 20000),
           total_engagement = PInt 0,
           total_views = PInt (frequency h * 20000),
           video_count = 0\<rparr>, w)"
proof -
  have "py_take (POSTS_PER_HASHTAG cfg) (sample_posts h) = []"
    using assms by (simp add: py_take_def)
  then show ?thesis by (rule analyze_empty)
qed

theorem analyze_empty_samples_linear_witness:
  "sample_posts \<lparr>hashtag = ''sunset'', frequency = 4, posts_count = 0, sample_posts = [],
                  category = ''general''\<rparr> = []
   \<and> analyze_hashtag_engagement exact_runtime
        \<lparr>scrape = (\<lambda>w u. (Inl (Raised ''timeout''), w)), goto_explore = (\<lambda>w. w),
         randint = (\<lambda>a b w. (a, w)), uniform_15_25 = (\<lambda>w. (20, w)),
         utcnow = (\<lambda>w. (w, w))\<rparr>
        \<lparr>SCROLL_COUNT = 15, POSTS_TO_SCAN = 400, MIN_HASHTAG_FREQUENCY = 1,
         TOP_HASHTAGS_TO_SAVE = 10, POSTS_PER_HASHTAG = 3\<rparr>
        (0 :: nat)
        \<lparr>hashtag = ''sunset'', frequency = 4, posts_count = 0, sample_posts = [],
         category = ''general''\<rparr>
     = (Inr \<lparr>avg_likes = PInt 4000, avg_comments = PInt 200, avg_engagement = PInt 4200,
             avg_views = PInt 80000, total_engagement = PInt 0, total_views = PInt 80000,
             video_count = 0\<rparr>, 0)"
proof -
  have e: "sample_posts \<lparr>hashtag = ''sunset'', frequency = 4, posts_count = 0, sample_posts = [],
                  category = ''general''\<rparr> = []" by simp
  show ?thesis
    using e analyze_empty_samples_linear [OF e,
      of exact_runtime
         "\<lparr>scrape = (\<lambda>w u. (Inl (Raised ''timeout''), w)), goto_explore = (\<lambda>w. w),
           randint = (\<lambda>a b w. (a, w)), uniform_15_25 = (\<lambda>w. (20, w)),
           utcnow = (\<lambda>w. (w, w))\<rparr>"
         "\<lparr>SCROLL_COUNT = 15, POSTS_TO_SCAN = 400, MIN_HASHTAG_FREQUENCY = 1,
         TOP_HASHTAGS_TO_SAVE = 10, POSTS_PER_HASHTAG = 3\<rparr>" "0 :: nat"]
    by simp
qed

text \<open>
  C5 as stated fails. The one sample is a video for which the page gave no view count, so
  \<^verbatim>\<open>get_post_engagement\<close> estimates its views as \<open>int((likes + comments) * uniform(15, 25))\<close>.
  With 100 likes and 10 comments \<open>avg_views\<close> is 1650 when the random factor is 15 and
  2750 when it is 25: it is derived from the random multiplier, not from a measured count.
\<close>
theorem measured_views_counterexample:
  "analyze_hashtag_engagement exact_runtime
      \<lparr>scrape = (\<lambda>w u. (Inr \<lparr>s_likes = 100, s_comments = 10, s_views = 0,
                                s_is_video = True\<rparr>, w)),
       goto_explore = (\<lambda>w. w), randint = (\<lambda>a b w. (a, w)),
       uniform_15_25 = (\<lambda>w. (15, w)), utcnow = (\<lambda>w. (w, w))\<rparr>
      \<lparr>SCROLL_COUNT = 15, POSTS_TO_SCAN = 400, MIN_HASHTAG_FREQUENCY = 1,
       TOP_HASHTAGS_TO_SAVE = 10, POSTS_PER_HASHTAG = 3\<rparr>
      (0 :: nat)
      \<lparr>hashtag = ''sunset'', frequency = 1, posts_count = 1,
       sample_posts = [''/p/1''], category = ''general''\<rparr>
    = (Inr \<lparr>avg_likes = PFloat 100, avg_comments = PFloat 10, avg_engagement = PFloat 110,
            avg_views = PFloat 1650, total_engagement = PInt 110, total_views = PInt 1650,
            video_count = 1\<rparr>, 0)
   \<and> analyze_hashtag_engagement exact_runtime
      \<lparr>scrape = (\<lambda>w u. (Inr \<lparr>s_likes = 100, s_comments = 10, s_views = 0,
                                s_is_video = True\<rparr>, w)),
       goto_explore = (\<lambda>w. w), randint = (\<lambda>a b w. (a, w)),
       uniform_15_25 = (\<lambda>w. (25, w)), utcnow = (\<lambda>w. (w, w))\<rparr>
      \<lparr>SCROLL_COUNT = 15, POSTS_TO_SCAN = 400, MIN_HASHTAG_FREQUENCY = 1,
       TOP_HASHTAGS_TO_SAVE = 10, POSTS_PER_HASHTAG = 3\<rparr>
      (0 :: nat)
      \<lparr>hashtag = ''sunset'', frequency = 1, posts_count = 1,
       sample_posts = [''/p/1''], category = ''general''\<rparr>
    = (Inr \<lparr>avg_likes = PFloat 100, avg_comments = PFloat 10, avg_engagement = PFloat 110,
            avg_views = PFloat 2750, total_engagement = PInt 110, total_views = PInt 2750,
            video_count = 1\<rparr>, 0)"
  by (simp add: analyze_hashtag_engagement_def py_take_def get_post_engagement_def
        estimate_likes_def add_sample_def summarise_def averaged_def exact_runtime_def
        floor_eq_iff)

text \<open>
  C5, as the code has it. Let \<open>F\<close> be the samples and \<open>V\<close> those flagged \<open>is_video\<close>.
  When \<open>V\<close> is not empty, the aggregator draws no random factor of its own (the world it
  returns is the one the sampling loop left); a returned summary has as \<open>avg_views\<close> the
  true division of the sum of the \<open>views\<close> of \<open>V\<close> by the length of \<open>V\<close>, as
  \<open>total_views\<close> that sum and as \<open>video_count\<close> that length; and the summary is returned
  whenever the four divisions succeed. When samples exist and none is a video,
  \<open>avg_views\<close> is the average engagement times the aggregator's random factor. The
  \<open>views\<close> of a video sample are the count read from the page when one was read
  (non-zero), and otherwise \<open>int((likes + comments) * f)\<close> for a random factor \<open>f\<close> drawn by
  \<^verbatim>\<open>get_post_engagement\<close> itself.
\<close>
theorem analyze_views_from_videos:
  fixes rt :: "'f runtime" and env :: "('f, 'w) env" and cfg w h
  defines "ps \<equiv> py_take (POSTS_PER_HASHTAG cfg) (sample_posts h)"
  defines "F \<equiv> fetched rt env w ps"
  defines "V \<equiv> filter is_video F"
  shows
    "(V \<noteq> [] \<longrightarrow>
        snd (analyze_hashtag_engagement rt env cfg w h) = world_after rt env w ps
      \<and> (\<forall>s. fst (analyze_hashtag_engagement rt env cfg w h) = Inr s \<longrightarrow>
             (\<exists>av. true_div rt (sum_list (map p_views V)) (int (length V)) = Inr av
                    \<and> avg_views s = PFloat av)
           \<and> total_views s = PInt (sum_list (map p_views V))
           \<and> video_count s = int (length V))
      \<and> (\<forall>av al ac ae.
             true_div rt (sum_list (map p_views V)) (int (length V)) = Inr av
           \<and> true_div rt (sum_list (map p_likes F)) (int (length F)) = Inr al
           \<and> true_div rt (sum_list (map p_comments F)) (int (length F)) = Inr ac
           \<and> true_div rt (sum_list (map p_total_engagement F)) (int (length F)) = Inr ae
           \<longrightarrow> fst (analyze_hashtag_engagement rt env cfg w h) =
                 Inr \<lparr>avg_likes = PFloat al, avg_comments = PFloat ac,
                      avg_engagement = PFloat ae, avg_views = PFloat av,
                      total_engagement = PInt (sum_list (map p_total_engagement F)),
                      total_views = PInt (sum_list (map p_views V)),
                      video_count = int (length V)\<rparr>))
   \<and> (F \<noteq> [] \<and> V = [] \<longrightarrow>
        (\<forall>s. fst (analyze_hashtag_engagement rt env cfg w h) = Inr s \<longrightarrow>
           (\<exists>ae. true_div rt (sum_list (map p_total_engagement F)) (int (length F)) = Inr ae
                  \<and> avg_views s =
                      PFloat (float_mul rt ae (fst (uniform_15_25 env (world_after rt env w ps)))))))
   \<and> (\<forall>w0 u d w1.
        scrape env w0 u = (Inr d, w1) \<and> s_is_video d \<and> s_views d \<noteq> 0 \<longrightarrow>
          is_video (fst (get_post_engagement rt env w0 u))
        \<and> p_views (fst (get_post_engagement rt env w0 u)) = s_views d)
   \<and> (\<forall>w0 u d w1.
        scrape env w0 u = (Inr d, w1) \<and> s_is_video d \<and> s_views d = 0
        \<and> is_video (fst (get_post_engagement rt env w0 u)) \<longrightarrow>
          (\<exists>x. int_mul_float rt
                   (p_likes (fst (get_post_engagement rt env w0 u))
                    + p_comments (fst (get_post_engagement rt env w0 u)))
                   (fst (uniform_15_25 env (snd (estimate_likes env d w1)))) = Inr x
                \<and> int_of_float rt x = Inr (p_views (fst (get_post_engagement rt env w0 u)))))"
proof (intro conjI impI allI)
  assume v: "V \<noteq> []"
  then have f: "F \<noteq> []" unfolding V_def by auto
  then have p: "ps \<noteq> []" unfolding F_def by simp
  let ?acc = "\<lparr>all_likes = map p_likes F, all_comments = map p_comments F,
               all_engagement = map p_total_engagement F,
               all_views = map p_views V,
               video_count_acc = int (length V)\<rparr>"
  have a: "analyze_hashtag_engagement rt env cfg w h =
      (case true_div rt (sum_list (map p_views V)) (int (length V)) of
         Inl e \<Rightarrow> (Inl e, world_after rt env w ps)
       | Inr av \<Rightarrow> (averaged rt ?acc (PFloat av) (PInt (sum_list (map p_views V))),
                     world_after rt env w ps))"
    using p f v unfolding ps_def F_def V_def
    by (simp add: analyze_nonempty summarise_video split: sum.splits)
  show "snd (analyze_hashtag_engagement rt env cfg w h) = world_after rt env w ps"
    unfolding a by (simp split: sum.splits)
  {
    fix s
    assume s: "fst (analyze_hashtag_engagement rt env cfg w h) = Inr s"
    then obtain av where av: "true_div rt (sum_list (map p_views V)) (int (length V)) = Inr av"
      and avd: "averaged rt ?acc (PFloat av) (PInt (sum_list (map p_views V))) = Inr s"
      unfolding a by (auto split: sum.splits)
    from averaged_Inr [OF avd]
    have r: "avg_views s = PFloat av" "total_views s = PInt (sum_list (map p_views V))"
      "video_count s = int (length V)" by simp_all
    show "\<exists>av. true_div rt (sum_list (map p_views V)) (int (length V)) = Inr av
               \<and> avg_views s = PFloat av"
      using av r(1) by blast
    show "total_views s = PInt (sum_list (map p_views V))" by (rule r(2))
    show "video_count s = int (length V)" by (rule r(3))
  }
  {
    fix av al ac ae
    assume d: "true_div rt (sum_list (map p_views V)) (int (length V)) = Inr av
           \<and> true_div rt (sum_list (map p_likes F)) (int (length F)) = Inr al
           \<and> true_div rt (sum_list (map p_comments F)) (int (length F)) = Inr ac
           \<and> true_div rt (sum_list (map p_total_engagement F)) (int (length F)) = Inr ae"
    then have "averaged rt ?acc (PFloat av) (PInt (sum_list (map p_views V))) =
                 Inr \<lparr>avg_likes = PFloat al, avg_comments = PFloat ac,
                      avg_engagement = PFloat ae, avg_views = PFloat av,
                      total_engagement = PInt (sum_list (map p_total_engagement F)),
                      total_views = PInt (sum_list (map p_views V)),
                      video_count = int (length V)\<rparr>"
      by (simp add: averaged_def)
    with d show "fst (analyze_hashtag_engagement rt env cfg w h) =
                 Inr \<lparr>avg_likes = PFloat al, avg_comments = PFloat ac,
                      avg_engagement = PFloat ae, avg_views = PFloat av,
                      total_engagement = PInt (sum_list (map p_total_engagement F)),
                      total_views = PInt (sum_list (map p_views V)),
                      video_count = int (length V)\<rparr>"
      unfolding a by simp
  }
next
  fix s
  assume n: "F \<noteq> [] \<and> V = []"
    and s: "fst (analyze_hashtag_engagement rt env cfg w h) = Inr s"
  from n have p: "ps \<noteq> []" unfolding F_def by simp
  let ?acc = "\<lparr>all_likes = map p_likes F, all_comments = map p_comments F,
               all_engagement = map p_total_engagement F,
               all_views = map p_views V,
               video_count_acc = int (length V)\<rparr>"
  let ?w = "world_after rt env w ps"
  have a: "analyze_hashtag_engagement rt env cfg w h =
      (case true_div rt (sum_list (map p_total_engagement F)) (int (length F)) of
         Inl e \<Rightarrow> (Inl e, ?w)
       | Inr ae \<Rightarrow>
           (averaged rt ?acc (PFloat (float_mul rt ae (fst (uniform_15_25 env ?w))))
              (PFloat (float_mul_len rt (float_mul rt ae (fst (uniform_15_25 env ?w)))
                         (length ps))),
            snd (uniform_15_25 env ?w)))"
    using p n unfolding ps_def F_def V_def
    by (simp add: analyze_nonempty summarise_no_video split: sum.splits)
  from s obtain ae where ae: "true_div rt (sum_list (map p_total_engagement F)) (int (length F)) = Inr ae"
    and avd: "averaged rt ?acc (PFloat (float_mul rt ae (fst (uniform_15_25 env ?w))))
              (PFloat (float_mul_len rt (float_mul rt ae (fst (uniform_15_25 env ?w)))
                         (length ps))) = Inr s"
    unfolding a by (auto split: sum.splits)
  from averaged_Inr [OF avd] ae
  show "\<exists>ae. true_div rt (sum_list (map p_total_engagement F)) (int (length F)) = Inr ae
              \<and> avg_views s = PFloat (float_mul rt ae (fst (uniform_15_25 env ?w)))"
    by blast
next
  fix w0 u d w1
  assume "scrape env w0 u = (Inr d, w1) \<and> s_is_video d \<and> s_views d \<noteq> 0"
  then show "is_video (fst (get_post_engagement rt env w0 u))"
    and "p_views (fst (get_post_engagement rt env w0 u)) = s_views d"
    using get_post_engagement_views_read [of env w0 u d w1 rt] by blast+
next
  fix w0 u d w1
  assume "scrape env w0 u = (Inr d, w1) \<and> s_is_video d \<and> s_views d = 0
        \<and> is_video (fst (get_post_engagement rt env w0 u))"
  then show "\<exists>x. int_mul_float rt
                   (p_likes (fst (get_post_engagement rt env w0 u))
                    + p_comments (fst (get_post_engagement rt env w0 u)))
                   (fst (uniform_15_25 env (snd (estimate_likes env d w1)))) = Inr x
                \<and> int_of_float rt x = Inr (p_views (fst (get_post_engagement rt env w0 u)))"
    using get_post_engagement_views_estimated [of env w0 u d w1 rt] by blast
qed

theorem analyze_views_from_videos_witness:
  "fst (analyze_hashtag_engagement exact_runtime
      \<lparr>scrape = (\<lambda>w u.
          (if u = ''/p/1''
           then Inr \<lparr>s_likes = 100, s_comments = 10, s_views = 1000, s_is_video = True\<rparr>
           else if u = ''/p/2''
           then Inr \<lparr>s_likes = 300, s_comments = 30, s_views = 2000, s_is_video = True\<rparr>
           else if u = ''/p/3''
           then Inr \<lparr>s_likes = 200, s_comments = 20, s_views = 0, s_is_video = False\<rparr>
           else Inr \<lparr>s_likes = 100, s_comments = 10, s_views = 0, s_is_video = True\<rparr>,
           Suc w)),
       goto_explore = (\<lambda>w. w), randint = (\<lambda>a b w. (a, w)),
       uniform_15_25 = (\<lambda>w. (20, w)), utcnow = (\<lambda>w. (w, w))\<rparr>
      \<lparr>SCROLL_COUNT = 15, POSTS_TO_SCAN = 400, MIN_HASHTAG_FREQUENCY = 1,
       TOP_HASHTAGS_TO_SAVE = 10, POSTS_PER_HASHTAG = 3\<rparr>
      (0 :: nat)
      \<lparr>hashtag = ''sunset'', frequency = 3, posts_count = 3,
       sample_posts = [''/p/1'', ''/p/2'', ''/p/3''], category = ''general''\<rparr>)
    = Inr \<lparr>avg_likes = PFloat 200, avg_comments = PFloat 20, avg_engagement = PFloat 220,
           avg_views = PFloat 1500, total_engagement = PInt 660, total_views = PInt 3000,
           video_count = 2\<rparr>
   \<and> (\<exists>s. fst (analyze_hashtag_engagement exact_runtime
      \<lparr>scrape = (\<lambda>w u.
          (if u = ''/p/1''
           then Inr \<lparr>s_likes = 100, s_comments = 10, s_views = 1000, s_is_video = True\<rparr>
           else if u = ''/p/2''
           then Inr \<lparr>s_likes = 300, s_comments = 30, s_views = 2000, s_is_video = True\<rparr>
           else if u = ''/p/3''
           then Inr \<lparr>s_likes = 200, s_comments = 20, s_views = 0, s_is_video = False\<rparr>
           else Inr \<lparr>s_likes = 100, s_comments = 10, s_views = 0, s_is_video = True\<rparr>,
           Suc w)),
       goto_explore = (\<lambda>w. w), randint = (\<lambda>a b w. (a, w)),
       uniform_15_25 = (\<lambda>w. (20, w)), utcnow = (\<lambda>w. (w, w))\<rparr>
      \<lparr>SCROLL_COUNT = 15, POSTS_TO_SCAN = 400, MIN_HASHTAG_FREQUENCY = 1,
       TOP_HASHTAGS_TO_SAVE = 10, POSTS_PER_HASHTAG = 3\<rparr>
      (0 :: nat)
      \<lparr>hashtag = ''sunset'', frequency = 1, posts_count = 1,
       sample_posts = [''/p/3''], category = ''general''\<rparr>) = Inr s
      \<and> avg_views s = PFloat 4400)
   \<and> p_views (fst (get_post_engagement exact_runtime
      \<lparr>scrape = (\<lambda>w u.
          (if u = ''/p/1''
           then Inr \<lparr>s_likes = 100, s_comments = 10, s_views = 1000, s_is_video = True\<rparr>
           else if u = ''/p/2''
           then Inr \<lparr>s_likes = 300, s_comments = 30, s_views = 2000, s_is_video = True\<rparr>
           else if u = ''/p/3''
           then Inr \<lparr>s_likes = 200, s_comments = 20, s_views = 0, s_is_video = False\<rparr>
           else Inr \<lparr>s_likes = 100, s_comments = 10, s_views = 0, s_is_video = True\<rparr>,
           Suc w)),
       goto_explore = (\<lambda>w. w), randint = (\<lambda>a b w. (a, w)),
       uniform_15_25 = (\<lambda>w. (20, w)), utcnow = (\<lambda>w. (w, w))\<rparr>
      (0 :: nat) ''/p/1'')) = 1000
   \<and> p_views (fst (get_post_engagement exact_runtime
      \<lparr>scrape = (\<lambda>w u.
          (if u = ''/p/1''
           then Inr \<lparr>s_likes = 100, s_comments = 10, s_views = 1000, s_is_video = True\<rparr>
           else if u = ''/p/2''
           then Inr \<lparr>s_likes = 300, s_comments = 30, s_views = 2000, s_is_video = True\<rparr>
           else if u = ''/p/3''
           then Inr \<lparr>s_likes = 200, s_comments = 20, s_views = 0, s_is_video = False\<rparr>
           else Inr \<lparr>s_likes = 100, s_comments = 10, s_views = 0, s_is_video = True\<rparr>,
           Suc w)),
       goto_explore = (\<lambda>w. w), randint = (\<lambda>a b w. (a, w)),
       uniform_15_25 = (\<lambda>w. (20, w)), utcnow = (\<lambda>w. (w, w))\<rparr>
      (0 :: nat) ''/p/4'')) = 2200"
proof -
  let ?d1 = "\<lparr>s_likes = 100, s_comments = 10, s_views = 1000, s_is_video = True\<rparr>"
  let ?d4 = "\<lparr>s_likes = 100, s_comments = 10, s_views = 0, s_is_video = True\<rparr>"
  let ?env = "\<lparr>scrape = (\<lambda>(w :: nat) u.
          (if u = ''/p/1''
           then Inr ?d1
           else if u = ''/p/2''
           then Inr \<lparr>s_likes = 300, s_comments = 30, s_views = 2000, s_is_video = True\<rparr>
           else if u = ''/p/3''
           then Inr \<lparr>s_likes = 200, s_comments = 20, s_views = 0, s_is_video = False\<rparr>
           else Inr ?d4,
           Suc w)),
       goto_explore = (\<lambda>w. w), randint = (\<lambda>a b w. (a, w)),
       uniform_15_25 = (\<lambda>w. (20 :: rat, w)), utcnow = (\<lambda>w. (w, w))\<rparr>"
  let ?cfg = "\<lparr>SCROLL_COUNT = 15, POSTS_TO_SCAN = 400, MIN_HASHTAG_FREQUENCY = 1,
       TOP_HASHTAGS_TO_SAVE = 10, POSTS_PER_HASHTAG = 3\<rparr>"
  let ?h = "\<lparr>hashtag = ''sunset'', frequency = 3, posts_count = 3,
       sample_posts = [''/p/1'', ''/p/2'', ''/p/3''], category = ''general''\<rparr>"
  let ?h3 = "\<lparr>hashtag = ''sunset'', frequency = 1, posts_count = 1,
       sample_posts = [''/p/3''], category = ''general''\<rparr>"
  let ?F = "[\<lparr>p_likes = 100, p_comments = 10, p_views = 1000,
              p_total_engagement = 110, is_video = True\<rparr>,
             \<lparr>p_likes = 300, p_comments = 30, p_views = 2000,
              p_total_engagement = 330, is_video = True\<rparr>,
             \<lparr>p_likes = 200, p_comments = 20, p_views = 0,
              p_total_engagement = 220, is_video = False\<rparr>]"
  let ?F3 = "[\<lparr>p_likes = 200, p_comments = 20, p_views = 0,
              p_total_engagement = 220, is_video = False\<rparr>]"
  let ?S3 = "\<lparr>avg_likes = PFloat 200, avg_comments = PFloat 20, avg_engagement = PFloat 220,
           avg_views = PFloat (4400 :: rat), total_engagement = PInt 220,
           total_views = PFloat 4400, video_count = 0\<rparr>"
  have F: "fetched exact_runtime ?env 0 (py_take (POSTS_PER_HASHTAG ?cfg) (sample_posts ?h)) = ?F"
    by (simp add: py_take_def get_post_engagement_def estimate_likes_def)
  have V: "filter is_video ?F \<noteq> []" by simp
  have d: "true_div exact_runtime (sum_list (map p_views (filter is_video ?F)))
               (int (length (filter is_video ?F))) = Inr 1500
         \<and> true_div exact_runtime (sum_list (map p_likes ?F)) (int (length ?F)) = Inr 200
         \<and> true_div exact_runtime (sum_list (map p_comments ?F)) (int (length ?F)) = Inr 20
         \<and> true_div exact_runtime (sum_list (map p_total_engagement ?F)) (int (length ?F))
             = Inr 220"
    by (simp add: exact_runtime_def)
  note T = analyze_views_from_videos [of exact_runtime ?env 0 ?cfg ?h, unfolded F]
  note S = T [THEN conjunct1, THEN mp, OF V, THEN conjunct2, THEN conjunct2,
              THEN spec, THEN spec, THEN spec, THEN spec, THEN mp, OF d]
  from S have c1: "fst (analyze_hashtag_engagement exact_runtime ?env ?cfg 0 ?h)
    = Inr \<lparr>avg_likes = PFloat 200, avg_comments = PFloat 20, avg_engagement = PFloat 220,
           avg_views = PFloat 1500, total_engagement = PInt 660, total_views = PInt 3000,
           video_count = 2\<rparr>" by simp
  have F3: "fetched exact_runtime ?env 0 (py_take (POSTS_PER_HASHTAG ?cfg) (sample_posts ?h3)) = ?F3"
    by (simp add: py_take_def get_post_engagement_def estimate_likes_def)
  have W3: "world_after exact_runtime ?env 0 (py_take (POSTS_PER_HASHTAG ?cfg) (sample_posts ?h3)) = 1"
    by (simp add: py_take_def get_post_engagement_def estimate_likes_def)
  have n3: "?F3 \<noteq> [] \<and> filter is_video ?F3 = []" by simp
  have a3: "fst (analyze_hashtag_engagement exact_runtime ?env ?cfg 0 ?h3) = Inr ?S3"
    by (simp add: analyze_hashtag_engagement_def py_take_def get_post_engagement_def
        estimate_likes_def add_sample_def summarise_def averaged_def exact_runtime_def)
  note T3 = analyze_views_from_videos [of exact_runtime ?env 0 ?cfg ?h3, unfolded F3 W3]
  from T3 [THEN conjunct2, THEN conjunct1, THEN mp, OF n3, THEN spec, THEN mp, OF a3]
  obtain ae where ae: "true_div exact_runtime (sum_list (map p_total_engagement ?F3))
                         (int (length ?F3)) = Inr ae"
    and av: "avg_views ?S3 = PFloat (float_mul exact_runtime ae (fst (uniform_15_25 ?env 1)))"
    by blast
  from ae have "ae = 220" by (simp add: exact_runtime_def)
  with av have "avg_views ?S3 = PFloat 4400" by (simp add: exact_runtime_def)
  with a3 have c2: "\<exists>s. fst (analyze_hashtag_engagement exact_runtime ?env ?cfg 0 ?h3) = Inr s
      \<and> avg_views s = PFloat 4400" by blast
  have r1: "scrape ?env 0 ''/p/1'' = (Inr ?d1, 1) \<and> s_is_video ?d1 \<and> s_views ?d1 \<noteq> 0"
    by simp
  from T [THEN conjunct2, THEN conjunct2, THEN conjunct1, THEN spec, THEN spec, THEN spec,
          THEN spec, THEN mp, OF r1]
  have c3: "p_views (fst (get_post_engagement exact_runtime ?env 0 ''/p/1'')) = 1000" by simp
  have g4: "get_post_engagement exact_runtime ?env 0 ''/p/4''
      = (\<lparr>p_likes = 100, p_comments = 10, p_views = 2200, p_total_engagement = 110,
          is_video = True\<rparr>, 1)"
    by (simp add: get_post_engagement_def estimate_likes_def exact_runtime_def floor_eq_iff)
  have r4: "scrape ?env 0 ''/p/4'' = (Inr ?d4, 1) \<and> s_is_video ?d4 \<and> s_views ?d4 = 0
      \<and> is_video (fst (get_post_engagement exact_runtime ?env 0 ''/p/4''))"
    unfolding g4 by simp
  from T [THEN conjunct2, THEN conjunct2, THEN conjunct2, THEN spec, THEN spec, THEN spec,
          THEN spec, THEN mp, OF r4]
  obtain x where x: "int_mul_float exact_runtime
                   (p_likes (fst (get_post_engagement exact_runtime ?env 0 ''/p/4''))
                    + p_comments (fst (get_post_engagement exact_runtime ?env 0 ''/p/4'')))
                   (fst (uniform_15_25 ?env (snd (estimate_likes ?env ?d4 1)))) = Inr x"
    and xi: "int_of_float exact_runtime x
             = Inr (p_views (fst (get_post_engagement exact_runtime ?env 0 ''/p/4'')))"
    by blast
  have "int_mul_float exact_runtime
                   (p_likes (fst (get_post_engagement exact_runtime ?env 0 ''/p/4''))
                    + p_comments (fst (get_post_engagement exact_runtime ?env 0 ''/p/4'')))
                   (fst (uniform_15_25 ?env (snd (estimate_likes ?env ?d4 1)))) = Inr (110 * 20)"
    unfolding g4 by (simp add: exact_runtime_def estimate_likes_def)
  with x have "x = 110 * 20" by simp
  with xi have "int_of_float exact_runtime (110 * 20)
      = Inr (p_views (fst (get_post_engagement exact_runtime ?env 0 ''/p/4'')))" by simp
  then have c4: "p_views (fst (get_post_engagement exact_runtime ?env 0 ''/p/4'')) = 2200"
    by (simp add: exact_runtime_def floor_eq_iff)
  from c1 c2 c3 c4 show ?thesis by (intro conjI)
qed

text \<open>
  C10 as stated fails. Every fetch raises, the frequency is 4 and two posts are sampled:
  \<^verbatim>\<open>get_post_engagement\<close> catches the exception and returns its fallback dict each time, so
  the summary averages the two fallback dicts and \<open>total_engagement\<close> is their sum 1040,
  not \<open>4 * 1050 = 4200\<close>; the averages are not the frequency-scaled ones either.
\<close>
theorem failed_fetches_counterexample:
  "analyze_hashtag_engagement exact_runtime
      \<lparr>scrape = (\<lambda>w u. (Inl (Raised ''timeout''), w)),
       goto_explore = (\<lambda>w. w), randint = (\<lambda>a b w. (a, w)),
       uniform_15_25 = (\<lambda>w. (20, w)), utcnow = (\<lambda>w. (w, w))\<rparr>
      \<lparr>SCROLL_COUNT = 15, POSTS_TO_SCAN = 400, MIN_HASHTAG_FREQUENCY = 1,
       TOP_HASHTAGS_TO_SAVE = 10, POSTS_PER_HASHTAG = 3\<rparr>
      (0 :: nat)
      \<lparr>hashtag = ''sunset'', frequency = 4, posts_count = 2,
       sample_posts = [''/p/1'', ''/p/2''], category = ''general''\<rparr>
    = (Inr \<lparr>avg_likes = PFloat 500, avg_comments = PFloat 20, avg_engagement = PFloat 520,
            avg_views = PFloat 10400, total_engagement = PInt 1040,
            total_views = PFloat 20800, video_count = 0\<rparr>, 0)"
  by (simp add: analyze_hashtag_engagement_def py_take_def get_post_engagement_def
        fallback_engagement_def add_sample_def summarise_def averaged_def exact_runtime_def)

text \<open>
  C10, as the code has it. With no sample post the summary is the frequency-scaled one with
  \<open>total_engagement = 0\<close>. The branch written for an empty engagement list returns the same
  six other fields with \<open>total_engagement = f * 1050\<close>, which differs from 0 for
  \<open>f \<ge> 1\<close>. That branch is not reached from a non-empty sample list: the loop gathers one
  engagement figure per sampled post, because a fetch that fails returns the fallback dict
  instead of raising; a returned summary then has as \<open>total_engagement\<close> the sum of the
  samples' figures.
\<close>
theorem fallback_branches_disagree:
  fixes rt :: "'f runtime" and env :: "('f, 'w) env" and cfg w h
  defines "ps \<equiv> py_take (POSTS_PER_HASHTAG cfg) (sample_posts h)"
  shows
    "(ps = [] \<longrightarrow>
        analyze_hashtag_engagement rt env cfg w h =
          (Inr \<lparr>avg_likes = PInt (frequency h * 1000),
                avg_comments = PInt (frequency h * 50),
                avg_engagement = PInt (frequency h * 1050),
                avg_views = PInt (frequency h * 20000),
                total_engagement = PInt 0,
                total_views = PInt (frequency h * 20000),
                video_count = 0\<rparr>, w))
   \<and> (\<forall>sp (acc :: samples) w'. all_engagement acc = [] \<longrightarrow>
        summarise rt env h sp acc w' =
          (Inr \<lparr>avg_likes = PInt (frequency h * 1000),
                avg_comments = PInt (frequency h * 50),
                avg_engagement = PInt (frequency h * 1050),
                avg_views = PInt (frequency h * 20000),
                total_engagement = PInt (frequency h * 1050),
                total_views = PInt (frequency h * 20000),
                video_count = 0\<rparr>, w'))
   \<and> (1 \<le> frequency h \<longrightarrow> (PInt 0 :: 'f pynum) \<noteq> PInt (frequency h * 1050))
   \<and> (ps \<noteq> [] \<longrightarrow>
        all_engagement (fst (sample_loop rt env ps
            \<lparr>all_likes = [], all_comments = [], all_engagement = [], all_views = [],
             video_count_acc = 0\<rparr> w))
          = map p_total_engagement (fetched rt env w ps)
      \<and> length (fetched rt env w ps) = length ps
      \<and> (\<forall>s. fst (analyze_hashtag_engagement rt env cfg w h) = Inr s \<longrightarrow>
             total_engagement s = PInt (sum_list (map p_total_engagement (fetched rt env w ps)))))
   \<and> (\<forall>w0 u e w1. scrape env w0 u = (Inl e, w1) \<longrightarrow>
        get_post_engagement rt env w0 u = fallback_engagement env w1)"
proof (intro conjI impI allI)
  assume "ps = []"
  then show "analyze_hashtag_engagement rt env cfg w h =
          (Inr \<lparr>avg_likes = PInt (frequency h * 1000),
                avg_comments = PInt (frequency h * 50),
                avg_engagement = PInt (frequency h * 1050),
                avg_views = PInt (frequency h * 20000),
                total_engagement = PInt 0,
                total_views = PInt (frequency h * 20000),
                video_count = 0\<rparr>, w)"
    unfolding ps_def by (rule analyze_empty)
next
  fix sp and acc :: samples and w'
  assume "all_engagement acc = []"
  then show "summarise rt env h sp acc w' =
          (Inr \<lparr>avg_likes = PInt (frequency h * 1000),
                avg_comments = PInt (frequency h * 50),
                avg_engagement = PInt (frequency h * 1050),
                avg_views = PInt (frequency h * 20000),
                total_engagement = PInt (frequency h * 1050),
                total_views = PInt (frequency h * 20000),
                video_count = 0\<rparr>, w')"
    by (rule summarise_unsampled)
next
  assume "1 \<le> frequency h"
  then show "(PInt 0 :: 'f pynum) \<noteq> PInt (frequency h * 1050)" by simp
next
  assume p: "ps \<noteq> []"
  show "all_engagement (fst (sample_loop rt env ps
            \<lparr>all_likes = [], all_comments = [], all_engagement = [], all_views = [],
             video_count_acc = 0\<rparr> w))
          = map p_total_engagement (fetched rt env w ps)"
    by (simp add: sample_loop_empty_acc)
  show "length (fetched rt env w ps) = length ps" by simp
  fix s
  assume s: "fst (analyze_hashtag_engagement rt env cfg w h) = Inr s"
  have ne: "map p_total_engagement (fetched rt env w ps) \<noteq> []"
    using p by simp
  from s p have "fst (summarise rt env h ps
       \<lparr>all_likes = map p_likes (fetched rt env w ps),
        all_comments = map p_comments (fetched rt env w ps),
        all_engagement = map p_total_engagement (fetched rt env w ps),
        all_views = map p_views (filter is_video (fetched rt env w ps)),
        video_count_acc = int (length (filter is_video (fetched rt env w ps)))\<rparr>
       (world_after rt env w ps)) = Inr s"
    unfolding ps_def by (simp add: analyze_nonempty)
  from summarise_sampled_total [OF _ this] ne
  show "total_engagement s = PInt (sum_list (map p_total_engagement (fetched rt env w ps)))"
    by simp
next
  fix w0 u e w1
  assume "scrape env w0 u = (Inl e, w1)"
  then show "get_post_engagement rt env w0 u = fallback_engagement env w1"
    by (rule get_post_engagement_scrape_raises)
qed

theorem fallback_branches_disagree_witness:
  "all_engagement (fst (sample_loop exact_runtime
      \<lparr>scrape = (\<lambda>w u. (Inl (Raised ''timeout''), w)),
       goto_explore = (\<lambda>w. w), randint = (\<lambda>a b w. (a, w)),
       uniform_15_25 = (\<lambda>w. (20, w)), utcnow = (\<lambda>w. (w, w))\<rparr>
      [''/p/1'', ''/p/2'']
      \<lparr>all_likes = [], all_comments = [], all_engagement = [], all_views = [],
       video_count_acc = 0\<rparr> (0 :: nat))) = [520, 520]
   \<and> get_post_engagement exact_runtime
      \<lparr>scrape = (\<lambda>w u. (Inl (Raised ''timeout''), w)),
       goto_explore = (\<lambda>w. w), randint = (\<lambda>a b w. (a, w)),
       uniform_15_25 = (\<lambda>w. (20, w)), utcnow = (\<lambda>w. (w, w))\<rparr>
      (0 :: nat) ''/p/1''
     = (\<lparr>p_likes = 500, p_comments = 20, p_views = 10000, p_total_engagement = 520,
         is_video = False\<rparr>, 0)
   \<and> (PInt 0 :: rat pynum) \<noteq> PInt (4 * 1050)
   \<and> analyze_hashtag_engagement exact_runtime
      \<lparr>scrape = (\<lambda>w u. (Inl (Raised ''timeout''), w)),
       goto_explore = (\<lambda>w. w), randint = (\<lambda>a b w. (a, w)),
       uniform_15_25 = (\<lambda>w. (20, w)), utcnow = (\<lambda>w. (w, w))\<rparr>
      \<lparr>SCROLL_COUNT = 15, POSTS_TO_SCAN = 400, MIN_HASHTAG_FREQUENCY = 1,
       TOP_HASHTAGS_TO_SAVE = 10, POSTS_PER_HASHTAG = 3\<rparr>
      (0 :: nat)
      \<lparr>hashtag = ''sunset'', frequency = 4, posts_count = 0,
       sample_posts = [], category = ''general''\<rparr>
     = (Inr \<lparr>avg_likes = PInt 4000, avg_comments = PInt 200, avg_engagement = PInt 4200,
             avg_views = PInt 80000, total_engagement = PInt 0, total_views = PInt 80000,
             video_count = 0\<rparr>, 0)
   \<and> summarise exact_runtime
      \<lparr>scrape = (\<lambda>w u. (Inl (Raised ''timeout''), w)),
       goto_explore = (\<lambda>w. w), randint = (\<lambda>a b w. (a, w)),
       uniform_15_25 = (\<lambda>w. (20, w)), utcnow = (\<lambda>w. (w, w))\<rparr>
      \<lparr>hashtag = ''sunset'', frequency = 4, posts_count = 2,
       sample_posts = [''/p/1'', ''/p/2''], category = ''general''\<rparr>
      [''/p/1'', ''/p/2'']
      \<lparr>all_likes = [], all_comments = [], all_engagement = [], all_views = [],
       video_count_acc = 0\<rparr> (0 :: nat)
     = (Inr \<lparr>avg_likes = PInt 4000, avg_comments = PInt 200, avg_engagement = PInt 4200,
             avg_views = PInt 80000, total_engagement = PInt 4200, total_views = PInt 80000,
             video_count = 0\<rparr>, 0)
   \<and> (\<exists>s. fst (analyze_hashtag_engagement exact_runtime
      \<lparr>scrape = (\<lambda>w u. (Inl (Raised ''timeout''), w)),
       goto_explore = (\<lambda>w. w), randint = (\<lambda>a b w. (a, w)),
       uniform_15_25 = (\<lambda>w. (20, w)), utcnow = (\<lambda>w. (w, w))\<rparr>
      \<lparr>SCROLL_COUNT = 15, POSTS_TO_SCAN = 400, MIN_HASHTAG_FREQUENCY = 1,
       TOP_HASHTAGS_TO_SAVE = 10, POSTS_PER_HASHTAG = 3\<rparr>
      (0 :: nat)
      \<lparr>hashtag = ''sunset'', frequency = 4, posts_count = 2,
       sample_posts = [''/p/1'', ''/p/2''], category = ''general''\<rparr>) = Inr s
      \<and> total_engagement s = PInt 1040)"
proof -
  let ?env = "\<lparr>scrape = (\<lambda>(w :: nat) (u :: string). (Inl (Raised ''timeout''), w)),
       goto_explore = (\<lambda>w. w), randint = (\<lambda>a b w. (a, w)),
       uniform_15_25 = (\<lambda>w. (20 :: rat, w)), utcnow = (\<lambda>w. (w, w))\<rparr>"
  let ?cfg = "\<lparr>SCROLL_COUNT = 15, POSTS_TO_SCAN = 400, MIN_HASHTAG_FREQUENCY = 1,
       TOP_HASHTAGS_TO_SAVE = 10, POSTS_PER_HASHTAG = 3\<rparr>"
  let ?h = "\<lparr>hashtag = ''sunset'', frequency = 4, posts_count = 2,
       sample_posts = [''/p/1'', ''/p/2''], category = ''general''\<rparr>"
  let ?he = "\<lparr>hashtag = ''sunset'', frequency = 4, posts_count = 0,
       sample_posts = [], category = ''general''\<rparr>"
  let ?acce = "\<lparr>all_likes = [], all_comments = [], all_engagement = [], all_views = [],
       video_count_acc = 0\<rparr>"
  let ?S = "\<lparr>avg_likes = PFloat 500, avg_comments = PFloat 20, avg_engagement = PFloat 520,
            avg_views = PFloat (10400 :: rat), total_engagement = PInt 1040,
            total_views = PFloat 20800, video_count = 0\<rparr>"
  have p: "py_take (POSTS_PER_HASHTAG ?cfg) (sample_posts ?h) = [''/p/1'', ''/p/2'']"
    by (simp add: py_take_def)
  have p0: "py_take (POSTS_PER_HASHTAG ?cfg) (sample_posts ?he) = []"
    by (simp add: py_take_def)
  have ne: "[''/p/1'', ''/p/2''] \<noteq> ([] :: string list)" by simp
  have sc: "scrape ?env 0 ''/p/1'' = (Inl (Raised ''timeout''), 0)" by simp
  have fq: "1 \<le> frequency ?h" by simp
  have e0: "all_engagement ?acce = []" by simp
  have fb: "fallback_engagement ?env 0 =
      (\<lparr>p_likes = 500, p_comments = 20, p_views = 10000, p_total_engagement = 520,
         is_video = False\<rparr>, 0)"
    by (simp add: fallback_engagement_def)
  have F: "map p_total_engagement (fetched exact_runtime ?env 0 [''/p/1'', ''/p/2'']) = [520, 520]"
    by (simp add: get_post_engagement_def fallback_engagement_def)
  have an: "fst (analyze_hashtag_engagement exact_runtime ?env ?cfg 0 ?h) = Inr ?S"
    by (simp add: analyze_hashtag_engagement_def py_take_def get_post_engagement_def
        fallback_engagement_def add_sample_def summarise_def averaged_def exact_runtime_def)
  note T = fallback_branches_disagree [where rt = exact_runtime and env = ?env and w = 0
      and cfg = ?cfg and h = ?h, unfolded p]
  note T0 = fallback_branches_disagree [where rt = exact_runtime and env = ?env and w = 0
      and cfg = ?cfg and h = ?he]
  note a = T [THEN conjunct2, THEN conjunct2, THEN conjunct2, THEN conjunct1, THEN mp, OF ne,
              THEN conjunct1]
  note b = T [THEN conjunct2, THEN conjunct2, THEN conjunct2, THEN conjunct2,
              THEN spec, THEN spec, THEN spec, THEN spec, THEN mp, OF sc]
  note c = T [THEN conjunct2, THEN conjunct2, THEN conjunct1, THEN mp, OF fq]
  note d = T0 [THEN conjunct1, THEN mp, OF p0]
  note e = T [THEN conjunct2, THEN conjunct1, THEN spec [where x = "[''/p/1'', ''/p/2'']"],
              THEN spec [where x = ?acce], THEN spec [where x = 0], THEN mp, OF e0]
  note f = T [THEN conjunct2, THEN conjunct2, THEN conjunct2, THEN conjunct1, THEN mp, OF ne,
              THEN conjunct2, THEN conjunct2, THEN spec, THEN mp, OF an]
  from f have f': "total_engagement ?S = PInt 1040" unfolding F by simp
  from an f' have g: "\<exists>s. fst (analyze_hashtag_engagement exact_runtime ?env ?cfg 0 ?h) = Inr s
      \<and> total_engagement s = PInt 1040" by blast
  from a [unfolded F] b [unfolded fb] c d e g show ?thesis
    by (intro conjI) simp_all
qed

subsection \<open>Trend record builder\<close>

lemma from_instagram_data_Inr:
  assumes "from_instagram_data rt cfg h ed v now = Inr r"
  shows "py_int rt (avg_likes ed) = Inr (likes r)"
    and "py_int rt (avg_comments ed) = Inr (comments r)"
    and "py_int rt (avg_views ed) = Inr (views r)"
    and "py_float rt (avg_engagement ed) = Inr (engagement_score r)"
    and "hashtags r = [''#'' @ hashtag h]"
    and "version r = v"
    and "timestamp r = now"
    and "first_seen r = Some now"
    and "last_seen r = Some now"
    and "rb_frequency (raw_blob r) = frequency h"
    and "rb_posts_count (raw_blob r) = posts_count h"
    and "rb_video_count (raw_blob r) = video_count ed"
  using assms
  by (auto simp: from_instagram_data_def split: sum.splits)

lemma from_instagram_data_success:
  assumes "py_int rt (avg_likes ed) = Inr l"
    and "py_int rt (avg_comments ed) = Inr c"
    and "py_int rt (avg_views ed) = Inr vw"
    and "py_float rt (avg_engagement ed) = Inr sc"
  shows "\<exists>r. from_instagram_data rt cfg h ed v now = Inr r"
  using assms by (simp add: from_instagram_data_def)

lemma from_instagram_data_Inl:
  assumes "from_instagram_data rt cfg h ed v now = Inl e"
  shows "py_int rt (avg_likes ed) = Inl e \<or> py_int rt (avg_comments ed) = Inl e
       \<or> py_int rt (avg_views ed) = Inl e \<or> py_float rt (avg_engagement ed) = Inl e"
  using assms
  by (auto simp: from_instagram_data_def split: sum.splits)

lemma from_instagram_data_raises:
  assumes "py_int rt (avg_likes ed) = Inl e \<or> py_int rt (avg_comments ed) = Inl e
       \<or> py_int rt (avg_views ed) = Inl e \<or> py_float rt (avg_engagement ed) = Inl e"
  shows "\<exists>e'. from_instagram_data rt cfg h ed v now = Inl e'"
  using assms
  by (auto simp: from_instagram_data_def split: sum.splits)

text \<open>
  C8 as stated fails: on an observation and a summary with negative counts the builder
  signals nothing and returns a record that carries them.
\<close>
theorem from_instagram_data_negative_counterexample:
  "map_sum id (\<lambda>r. (likes r, comments r, views r, engagement_score r,
                     rb_frequency (raw_blob r), rb_posts_count (raw_blob r)))
     (from_instagram_data exact_runtime
        \<lparr>SCROLL_COUNT = 15, POSTS_TO_SCAN = 400, MIN_HASHTAG_FREQUENCY = 1,
         TOP_HASHTAGS_TO_SAVE = 10, POSTS_PER_HASHTAG = 3\<rparr>
        \<lparr>hashtag = ''sunset'', frequency = - 1, posts_count = - 2,
         sample_posts = [], category = ''general''\<rparr>
        \<lparr>avg_likes = PInt (- 5), avg_comments = PFloat (- 7 / 2),
         avg_engagement = PInt (- 9), avg_views = PInt (- 10),
         total_engagement = PInt (- 9), total_views = PInt (- 10), video_count = - 1\<rparr>
        ''run-1'' 100)
   = Inr (- 5, - 3, - 10, - 9, - 1, - 2)"
  by (simp add: from_instagram_data_def exact_runtime_def ceiling_eq_iff)

text \<open>
  C8, as the code has it. The builder checks no field constraint. When the three \<^verbatim>\<open>int\<close>
  conversions and the \<^verbatim>\<open>float\<close> conversion of the summary's averages succeed, it returns the
  record that carries their results, the counts of the observation as they are, and the
  clock reading as its three instants. When it raises, the exception is the one of a
  conversion, and it raises whenever one of the conversions does. \<^verbatim>\<open>int\<close> of an int always
  succeeds and \<^verbatim>\<open>float\<close> of a float is the float; \<^verbatim>\<open>int\<close> of a float and \<^verbatim>\<open>float\<close> of an
  int are the interpreter's conversions, which can raise.
\<close>
theorem from_instagram_data_unchecked:
  "(\<forall>l c vw sc.
        py_int rt (avg_likes ed) = Inr l \<and> py_int rt (avg_comments ed) = Inr c
      \<and> py_int rt (avg_views ed) = Inr vw \<and> py_float rt (avg_engagement ed) = Inr sc
      \<longrightarrow> (\<exists>r. from_instagram_data rt cfg h ed v now = Inr r
              \<and> likes r = l \<and> comments r = c \<and> views r = vw \<and> engagement_score r = sc
              \<and> rb_frequency (raw_blob r) = frequency h
              \<and> rb_posts_count (raw_blob r) = posts_count h
              \<and> rb_video_count (raw_blob r) = video_count ed
              \<and> hashtags r = [''#'' @ hashtag h]
              \<and> version r = v \<and> timestamp r = now
              \<and> first_seen r = Some now \<and> last_seen r = Some now))
   \<and> (\<forall>e. from_instagram_data rt cfg h ed v now = Inl e \<longrightarrow>
          py_int rt (avg_likes ed) = Inl e \<or> py_int rt (avg_comments ed) = Inl e
        \<or> py_int rt (avg_views ed) = Inl e \<or> py_float rt (avg_engagement ed) = Inl e)
   \<and> (\<forall>e. py_int rt (avg_likes ed) = Inl e \<or> py_int rt (avg_comments ed) = Inl e
        \<or> py_int rt (avg_views ed) = Inl e \<or> py_float rt (avg_engagement ed) = Inl e
        \<longrightarrow> (\<exists>e'. from_instagram_data rt cfg h ed v now = Inl e'))
   \<and> (\<forall>i. py_int rt (PInt i) = Inr i)
   \<and> (\<forall>x. py_int rt (PFloat x) = int_of_float rt x)
   \<and> (\<forall>i. py_float rt (PInt i) = float_of_int rt i)
   \<and> (\<forall>x. py_float rt (PFloat x) = Inr x)"
proof (intro conjI allI impI)
  fix l c vw sc
  assume a: "py_int rt (avg_likes ed) = Inr l \<and> py_int rt (avg_comments ed) = Inr c
      \<and> py_int rt (avg_views ed) = Inr vw \<and> py_float rt (avg_engagement ed) = Inr sc"
  then obtain r where r: "from_instagram_data rt cfg h ed v now = Inr r"
    using from_instagram_data_success [of rt ed l c vw sc cfg h v now] by blast
  from from_instagram_data_Inr [OF r] a
  have "likes r = l \<and> comments r = c \<and> views r = vw \<and> engagement_score r = sc
              \<and> rb_frequency (raw_blob r) = frequency h
              \<and> rb_posts_count (raw_blob r) = posts_count h
              \<and> rb_video_count (raw_blob r) = video_count ed
              \<and> hashtags r = [''#'' @ hashtag h]
              \<and> version r = v \<and> timestamp r = now
              \<and> first_seen r = Some now \<and> last_seen r = Some now"
    by simp
  with r show "\<exists>r. from_instagram_data rt cfg h ed v now = Inr r
              \<and> likes r = l \<and> comments r = c \<and> views r = vw \<and> engagement_score r = sc
              \<and> rb_frequency (raw_blob r) = frequency h
              \<and> rb_posts_count (raw_blob r) = posts_count h
              \<and> rb_video_count (raw_blob r) = video_count ed
              \<and> hashtags r = [''#'' @ hashtag h]
              \<and> version r = v \<and> timestamp r = now
              \<and> first_seen r = Some now \<and> last_seen r = Some now"
    by blast
next
  fix e
  assume "from_instagram_data rt cfg h ed v now = Inl e"
  then show "py_int rt (avg_likes ed) = Inl e \<or> py_int rt (avg_comments ed) = Inl e
        \<or> py_int rt (avg_views ed) = Inl e \<or> py_float rt (avg_engagement ed) = Inl e"
    by (rule from_instagram_data_Inl)
next
  fix e
  assume "py_int rt (avg_likes ed) = Inl e \<or> py_int rt (avg_comments ed) = Inl e
        \<or> py_int rt (avg_views ed) = Inl e \<or> py_float rt (avg_engagement ed) = Inl e"
  then show "\<exists>e'. from_instagram_data rt cfg h ed v now = Inl e'"
    by (rule from_instagram_data_raises)
qed simp_all

theorem from_instagram_data_unchecked_witness:
  "(\<exists>r. from_instagram_data exact_runtime
        \<lparr>SCROLL_COUNT = 15, POSTS_TO_SCAN = 400, MIN_HASHTAG_FREQUENCY = 1,
         TOP_HASHTAGS_TO_SAVE = 10, POSTS_PER_HASHTAG = 3\<rparr>
        \<lparr>hashtag = ''sunset'', frequency = - 1, posts_count = - 2,
         sample_posts = [], category = ''general''\<rparr>
        \<lparr>avg_likes = PInt (- 5), avg_comments = PInt (- 3),
         avg_engagement = PFloat (- 9), avg_views = PInt (- 10),
         total_engagement = PInt (- 9), total_views = PInt (- 10), video_count = - 1\<rparr>
        ''run-1'' 100 = Inr r
      \<and> likes r = - 5 \<and> comments r = - 3 \<and> views r = - 10 \<and> engagement_score r = - 9)
   \<and> (\<exists>e. from_instagram_data limited_runtime
        \<lparr>SCROLL_COUNT = 15, POSTS_TO_SCAN = 400, MIN_HASHTAG_FREQUENCY = 1,
         TOP_HASHTAGS_TO_SAVE = 10, POSTS_PER_HASHTAG = 3\<rparr>
        \<lparr>hashtag = ''sunset'', frequency = 1, posts_count = 2,
         sample_posts = [], category = ''general''\<rparr>
        \<lparr>avg_likes = PInt 5, avg_comments = PInt 3,
         avg_engagement = PInt (10 ^ 400), avg_views = PInt 10,
         total_engagement = PInt 8, total_views = PInt 10, video_count = 0\<rparr>
        ''run-1'' 100 = Inl e)
   \<and> py_float limited_runtime (PInt (10 ^ 400))
       = Inl (OverflowError ''int too large to convert to float'')"
proof -
  let ?cfg = "\<lparr>SCROLL_COUNT = 15, POSTS_TO_SCAN = 400, MIN_HASHTAG_FREQUENCY = 1,
         TOP_HASHTAGS_TO_SAVE = 10, POSTS_PER_HASHTAG = 3\<rparr>"
  let ?ed = "\<lparr>avg_likes = PInt (- 5), avg_comments = PInt (- 3),
         avg_engagement = PFloat (- 9 :: rat), avg_views = PInt (- 10),
         total_engagement = PInt (- 9), total_views = PInt (- 10), video_count = - 1\<rparr>"
  let ?ed' = "\<lparr>avg_likes = PInt 5, avg_comments = PInt 3,
         avg_engagement = (PInt (10 ^ 400) :: rat pynum), avg_views = PInt 10,
         total_engagement = PInt 8, total_views = PInt 10, video_count = 0\<rparr>"
  have a: "py_int exact_runtime (avg_likes ?ed) = Inr (- 5)
         \<and> py_int exact_runtime (avg_comments ?ed) = Inr (- 3)
         \<and> py_int exact_runtime (avg_views ?ed) = Inr (- 10)
         \<and> py_float exact_runtime (avg_engagement ?ed) = Inr (- 9)"
    by simp
  have o: "py_float limited_runtime (PInt (10 ^ 400))
             = Inl (OverflowError ''int too large to convert to float'')"
    by (simp add: limited_runtime_def exact_runtime_def)
  have b: "py_int limited_runtime (avg_likes ?ed')
             = Inl (OverflowError ''int too large to convert to float'')
         \<or> py_int limited_runtime (avg_comments ?ed')
             = Inl (OverflowError ''int too large to convert to float'')
         \<or> py_int limited_runtime (avg_views ?ed')
             = Inl (OverflowError ''int too large to convert to float'')
         \<or> py_float limited_runtime (avg_engagement ?ed')
             = Inl (OverflowError ''int too large to convert to float'')"
    using o by simp
  note T = from_instagram_data_unchecked [where rt = exact_runtime and ed = ?ed
      and cfg = ?cfg
      and h = "\<lparr>hashtag = ''sunset'', frequency = - 1, posts_count = - 2,
         sample_posts = [], category = ''general''\<rparr>"
      and v = "''run-1''" and now = 100]
  note U = from_instagram_data_unchecked [where rt = limited_runtime and ed = ?ed'
      and cfg = ?cfg
      and h = "\<lparr>hashtag = ''sunset'', frequency = 1, posts_count = 2,
         sample_posts = [], category = ''general''\<rparr>"
      and v = "''run-1''" and now = 100]
  from T [THEN conjunct1, THEN spec, THEN spec, THEN spec, THEN spec, THEN mp, OF a]
  have s: "\<exists>r. from_instagram_data exact_runtime ?cfg
        \<lparr>hashtag = ''sunset'', frequency = - 1, posts_count = - 2,
         sample_posts = [], category = ''general''\<rparr> ?ed ''run-1'' 100 = Inr r
      \<and> likes r = - 5 \<and> comments r = - 3 \<and> views r = - 10 \<and> engagement_score r = - 9"
    by blast
  from U [THEN conjunct2, THEN conjunct2, THEN conjunct1, THEN spec, THEN mp, OF b]
  have f: "\<exists>e. from_instagram_data limited_runtime ?cfg
        \<lparr>hashtag = ''sunset'', frequency = 1, posts_count = 2,
         sample_posts = [], category = ''general''\<rparr> ?ed' ''run-1'' 100 = Inl e" .
  from s f o show ?thesis by (intro conjI)
qed

subsection \<open>Upsert writer\<close>

lemma save_to_supabase_insert:
  assumes "hashtags tr = key # ks" and "\<not> (\<exists>r \<in> set rows. topic_hashtag r = key)"
  shows "save_to_supabase table_client rows tr = (Inr True, rows @ [payload_of tr key])"
proof -
  have "filter (\<lambda>r. topic_hashtag r = key) rows = []"
    using assms(2) by (auto simp: filter_empty_conv)
  then show ?thesis
    using assms(1) by (simp add: save_to_supabase_def table_client_def)
qed

lemma save_to_supabase_update:
  assumes "hashtags tr = key # ks" and "\<exists>r \<in> set rows. topic_hashtag r = key"
  shows "save_to_supabase table_client rows tr =
     (Inr True,
      map (\<lambda>r. if topic_hashtag r = key
                then apply_update (update_of (payload_of tr key)) r else r) rows)"
proof -
  have "filter (\<lambda>r. topic_hashtag r = key) rows \<noteq> []"
    using assms(2) by (auto simp: filter_empty_conv)
  then show ?thesis
    using assms(1) by (simp add: save_to_supabase_def table_client_def)
qed

lemma apply_update_frame:
  "r_platform (apply_update u r) = r_platform r
   \<and> topic_hashtag (apply_update u r) = topic_hashtag r
   \<and> sentiment_polarity (apply_update u r) = sentiment_polarity r
   \<and> sentiment_label (apply_update u r) = sentiment_label r"
  by (simp add: apply_update_def)

lemma update_overwrites_first_seen:
  "m_first_seen (metadata (apply_update (update_of (payload_of tr key)) r)) = first_seen tr"
  by (simp add: apply_update_def update_of_def payload_of_def)

text \<open>
  C1, evaluated on the table store. Both records are built without an exception. The first
  save of \<open>#sunset\<close>, built at instant 100, inserts one row whose stored \<open>first_seen\<close> is
  100. The second save of the same key, built at instant 200, rewrites the metadata column
  as a whole: the one row now carries \<open>first_seen = 200\<close>, together with the new timestamp
  and version.
\<close>
theorem second_upsert_overwrites_first_seen:
  "(case from_instagram_data exact_runtime
           \<lparr>SCROLL_COUNT = 15, POSTS_TO_SCAN = 400, MIN_HASHTAG_FREQUENCY = 1,
            TOP_HASHTAGS_TO_SAVE = 10, POSTS_PER_HASHTAG = 3\<rparr>
           \<lparr>hashtag = ''sunset'', frequency = 3, posts_count = 3,
            sample_posts = [''/p/1''], category = ''general''\<rparr>
           \<lparr>avg_likes = PInt 3000, avg_comments = PInt 150, avg_engagement = PInt 3150,
            avg_views = PInt 60000, total_engagement = PInt 3150, total_views = PInt 60000,
            video_count = 0\<rparr>
           ''run-1'' 100 of
      Inl e \<Rightarrow> False
    | Inr first_record \<Rightarrow>
       (case from_instagram_data exact_runtime
           \<lparr>SCROLL_COUNT = 15, POSTS_TO_SCAN = 400, MIN_HASHTAG_FREQUENCY = 1,
            TOP_HASHTAGS_TO_SAVE = 10, POSTS_PER_HASHTAG = 3\<rparr>
           \<lparr>hashtag = ''sunset'', frequency = 5, posts_count = 5,
            sample_posts = [''/p/7''], category = ''general''\<rparr>
           \<lparr>avg_likes = PInt 5000, avg_comments = PInt 250, avg_engagement = PInt 5250,
            avg_views = PInt 100000, total_engagement = PInt 5250, total_views = PInt 100000,
            video_count = 0\<rparr>
           ''run-2'' 200 of
          Inl e \<Rightarrow> False
        | Inr second_record \<Rightarrow>
            map (\<lambda>r. (topic_hashtag r, m_first_seen (metadata r), scraped_at r, version_id r))
              (snd (save_to_supabase table_client [] first_record))
            = [(''#sunset'', Some 100, 100, ''run-1'')]
          \<and> map (\<lambda>r. (topic_hashtag r, m_first_seen (metadata r), scraped_at r, version_id r))
              (snd (save_to_supabase table_client
                 (snd (save_to_supabase table_client [] first_record)) second_record))
            = [(''#sunset'', Some 200, 200, ''run-2'')]))"
  by (simp add: save_to_supabase_def table_client_def from_instagram_data_def payload_of_def
        update_of_def apply_update_def exact_runtime_def)

lemma save_to_supabase_key_only:
  assumes "hashtags tr = [key]"
    and "select_eq c s key = select_eq c' s key"
    and "\<forall>u. update_eq c s u key = update_eq c' s u key"
    and "\<forall>p. topic_hashtag p = key \<longrightarrow> insert_row c s p = insert_row c' s p"
  shows "save_to_supabase c s tr = save_to_supabase c' s tr"
proof -
  have "topic_hashtag (payload_of tr key) = key"
    by (simp add: payload_of_def)
  then have i: "insert_row c s (payload_of tr key) = insert_row c' s (payload_of tr key)"
    using assms(4) by blast
  have u: "update_eq c s (update_of (payload_of tr key)) key
           = update_eq c' s (update_of (payload_of tr key)) key"
    using assms(3) by blast
  show ?thesis
    by (cases "select_eq c' s key")
       (simp_all add: save_to_supabase_def Let_def assms(1) assms(2) i u)
qed

lemma save_to_supabase_table:
  assumes "hashtags tr = [key]"
  shows "fst (save_to_supabase table_client rows tr) = Inr True"
    and "\<exists>r \<in> set (snd (save_to_supabase table_client rows tr)).
           topic_hashtag r = key \<and> version_id r = version tr"
    and "filter (\<lambda>r. topic_hashtag r \<noteq> key) (snd (save_to_supabase table_client rows tr))
         = filter (\<lambda>r. topic_hashtag r \<noteq> key) rows"
proof -
  have k: "topic_hashtag (apply_update u r) = topic_hashtag r" for u r
    by (simp add: apply_update_def)
  have v: "version_id (apply_update (update_of (payload_of tr key)) r) = version tr" for r
    by (simp add: apply_update_def update_of_def payload_of_def)
  have p: "topic_hashtag (payload_of tr key) = key" "version_id (payload_of tr key) = version tr"
    by (simp_all add: payload_of_def)
  show "fst (save_to_supabase table_client rows tr) = Inr True"
    using assms save_to_supabase_insert [of tr key "[]" rows]
      save_to_supabase_update [of tr key "[]" rows]
    by (cases "\<exists>r \<in> set rows. topic_hashtag r = key") simp_all
  show "\<exists>r \<in> set (snd (save_to_supabase table_client rows tr)).
           topic_hashtag r = key \<and> version_id r = version tr"
  proof (cases "\<exists>r \<in> set rows. topic_hashtag r = key")
    case True
    then obtain r where r: "r \<in> set rows" "topic_hashtag r = key" by blast
    let ?r' = "apply_update (update_of (payload_of tr key)) r"
    have "snd (save_to_supabase table_client rows tr)
          = map (\<lambda>r. if topic_hashtag r = key
                then apply_update (update_of (payload_of tr key)) r else r) rows"
      using assms save_to_supabase_update [of tr key "[]" rows] True by simp
    then have "?r' \<in> set (snd (save_to_supabase table_client rows tr))"
      using r by (auto simp: image_iff intro!: bexI [of _ r])
    moreover have "topic_hashtag ?r' = key \<and> version_id ?r' = version tr"
      using r(2) by (simp add: k v)
    ultimately show ?thesis by blast
  next
    case False
    then show ?thesis
      using assms save_to_supabase_insert [of tr key "[]" rows] p by simp
  qed
  show "filter (\<lambda>r. topic_hashtag r \<noteq> key) (snd (save_to_supabase table_client rows tr))
         = filter (\<lambda>r. topic_hashtag r \<noteq> key) rows"
  proof (cases "\<exists>r \<in> set rows. topic_hashtag r = key")
    case True
    have "filter (\<lambda>r. topic_hashtag r \<noteq> key)
            (map (\<lambda>r. if topic_hashtag r = key then apply_update u r else r) rows)
          = filter (\<lambda>r. topic_hashtag r \<noteq> key) rows" for u
      by (induction rows) (auto simp: k)
    then show ?thesis
      using assms save_to_supabase_update [of tr key "[]" rows] True by simp
  next
    case False
    then show ?thesis
      using assms save_to_supabase_insert [of tr key "[]" rows] p by simp
  qed
qed

text \<open>
  C9. A record built for an observation has exactly one element in \<open>hashtags\<close>, the tag
  with a leading \<open>#\<close>. Saving it addresses the store under that key only: two clients that
  answer alike for this key give the same result. On the table store the save succeeds,
  leaves a row with this key and the run's version, and leaves every row of another key as
  it was.
\<close>
theorem store_key_is_tagged_hashtag:
  assumes built: "from_instagram_data rt cfg h ed v now = Inr tr"
  shows "hashtags tr = [''#'' @ hashtag h]
   \<and> (\<forall>c c' :: ('f, 's) client. \<forall>s.
         select_eq c s (''#'' @ hashtag h) = select_eq c' s (''#'' @ hashtag h)
         \<and> (\<forall>u. update_eq c s u (''#'' @ hashtag h) = update_eq c' s u (''#'' @ hashtag h))
         \<and> (\<forall>p. topic_hashtag p = ''#'' @ hashtag h \<longrightarrow> insert_row c s p = insert_row c' s p)
         \<longrightarrow> save_to_supabase c s tr = save_to_supabase c' s tr)
   \<and> fst (save_to_supabase table_client rows tr) = Inr True
   \<and> (\<exists>r \<in> set (snd (save_to_supabase table_client rows tr)).
         topic_hashtag r = ''#'' @ hashtag h \<and> version_id r = v)
   \<and> filter (\<lambda>r. topic_hashtag r \<noteq> ''#'' @ hashtag h)
        (snd (save_to_supabase table_client rows tr))
      = filter (\<lambda>r. topic_hashtag r \<noteq> ''#'' @ hashtag h) rows"
proof -
  have hs: "hashtags tr = [''#'' @ hashtag h]"
    using built by (rule from_instagram_data_Inr(5))
  have ver: "version tr = v"
    using built by (rule from_instagram_data_Inr(6))
  have generic: "save_to_supabase c s tr = save_to_supabase c' s tr"
    if "select_eq c s (''#'' @ hashtag h) = select_eq c' s (''#'' @ hashtag h)
         \<and> (\<forall>u. update_eq c s u (''#'' @ hashtag h) = update_eq c' s u (''#'' @ hashtag h))
         \<and> (\<forall>p. topic_hashtag p = ''#'' @ hashtag h \<longrightarrow> insert_row c s p = insert_row c' s p)"
    for c c' :: "('f, 's) client" and s
    using that save_to_supabase_key_only [OF hs, of c s c'] by blast
  have t1: "fst (save_to_supabase table_client rows tr) = Inr True"
    by (rule save_to_supabase_table(1) [OF hs])
  have t2: "\<exists>r \<in> set (snd (save_to_supabase table_client rows tr)).
              topic_hashtag r = ''#'' @ hashtag h \<and> version_id r = v"
    using save_to_supabase_table(2) [OF hs, of rows] by (simp only: ver)
  have t3: "filter (\<lambda>r. topic_hashtag r \<noteq> ''#'' @ hashtag h)
              (snd (save_to_supabase table_client rows tr))
            = filter (\<lambda>r. topic_hashtag r \<noteq> ''#'' @ hashtag h) rows"
    by (rule save_to_supabase_table(3) [OF hs])
  show ?thesis
    using hs generic t1 t2 t3 by (intro conjI allI impI) blast+
qed

theorem store_key_is_tagged_hashtag_witness:
  "(case from_instagram_data exact_runtime
         \<lparr>SCROLL_COUNT = 15, POSTS_TO_SCAN = 400, MIN_HASHTAG_FREQUENCY = 1,
          TOP_HASHTAGS_TO_SAVE = 10, POSTS_PER_HASHTAG = 3\<rparr>
         \<lparr>hashtag = ''sunset'', frequency = 3, posts_count = 3,
          sample_posts = [''/p/1''], category = ''general''\<rparr>
         \<lparr>avg_likes = PInt 3000, avg_comments = PInt 150, avg_engagement = PInt 3150,
          avg_views = PInt 60000, total_engagement = PInt 3150, total_views = PInt 60000,
          video_count = 0\<rparr>
         ''run-1'' 100 of
      Inl e \<Rightarrow> False
    | Inr tr \<Rightarrow>
        save_to_supabase
          (table_client\<lparr>select_eq := (\<lambda>rows k.
              if k = ''#sunset'' then Inr (filter (\<lambda>r. topic_hashtag r = k) rows)
              else Inl (Raised ''other key''))\<rparr>)
          [] tr
        = save_to_supabase table_client [] tr
      \<and> hashtags tr = [''#sunset''])"
proof -
  let ?c' = "table_client\<lparr>select_eq := (\<lambda>(rows :: rat row list) k.
          if k = ''#sunset'' then Inr (filter (\<lambda>r. topic_hashtag r = k) rows)
          else Inl (Raised ''other key''))\<rparr>"
  let ?cfg = "\<lparr>SCROLL_COUNT = 15, POSTS_TO_SCAN = 400, MIN_HASHTAG_FREQUENCY = 1,
          TOP_HASHTAGS_TO_SAVE = 10, POSTS_PER_HASHTAG = 3\<rparr>"
  let ?h = "\<lparr>hashtag = ''sunset'', frequency = 3, posts_count = 3,
          sample_posts = [''/p/1''], category = ''general''\<rparr>"
  let ?ed = "\<lparr>avg_likes = PInt 3000, avg_comments = PInt 150, avg_engagement = PInt 3150,
          avg_views = PInt 60000, total_engagement = PInt 3150, total_views = PInt 60000,
          video_count = 0\<rparr> :: rat engagement_summary"
  obtain tr where built: "from_instagram_data exact_runtime ?cfg ?h ?ed ''run-1'' 100 = Inr tr"
    by (simp add: from_instagram_data_def exact_runtime_def)
  have a: "select_eq ?c' [] (''#'' @ hashtag ?h) = select_eq table_client [] (''#'' @ hashtag ?h)"
    by (simp add: table_client_def)
  have b: "\<forall>u. update_eq ?c' [] u (''#'' @ hashtag ?h) = update_eq table_client [] u (''#'' @ hashtag ?h)"
    by simp
  have c: "\<forall>p. topic_hashtag p = ''#'' @ hashtag ?h \<longrightarrow> insert_row ?c' [] p = insert_row table_client [] p"
    by simp
  note T = store_key_is_tagged_hashtag [OF built, of "[]"]
  note g = T [THEN conjunct2, THEN conjunct1, THEN spec, THEN spec, THEN spec, THEN mp,
              OF conjI [OF a conjI [OF b c]]]
  note k = T [THEN conjunct1]
  from g k show ?thesis
    unfolding built by simp
qed

subsection \<open>Run orchestrator\<close>

lemma store_op_fails_save:
  "store_op_fails c s tr \<Longrightarrow> fst (save_to_supabase c s tr) = Inr False"
  by (auto simp: store_op_fails_def save_to_supabase_def Let_def
           split: list.splits sum.splits prod.splits)

lemma save_trends_loop_append:
  "save_trends_loop rt env c cfg vid (xs @ ys) st
   = save_trends_loop rt env c cfg vid ys (save_trends_loop rt env c cfg vid xs st)"
  by (induction xs arbitrary: st) simp_all

lemma process_hashtag_counts:
  assumes "process_hashtag rt env c cfg vid h (w, s, rep) = (w', s', rep')"
  shows "successful rep' + failed rep' = successful rep + failed rep + 1"
    and "failed rep \<le> failed rep'"
    and "set (errors rep) \<subseteq> set (errors rep')"
  using assms
  by (auto simp: process_hashtag_def split: prod.splits sum.splits bool.splits)

lemma save_trends_loop_counts:
  assumes "save_trends_loop rt env c cfg vid xs (w, s, rep) = (w', s', rep')"
  shows "successful rep' + failed rep' = successful rep + failed rep + int (length xs)
         \<and> failed rep \<le> failed rep' \<and> set (errors rep) \<subseteq> set (errors rep')"
  using assms
proof (induction xs arbitrary: w s rep)
  case Nil
  then show ?case by simp
next
  case (Cons h xs)
  obtain w1 s1 rep1 where p: "process_hashtag rt env c cfg vid h (w, s, rep) = (w1, s1, rep1)"
    by (cases "process_hashtag rt env c cfg vid h (w, s, rep)") auto
  from Cons.prems p have "save_trends_loop rt env c cfg vid xs (w1, s1, rep1) = (w', s', rep')"
    by simp
  from Cons.IH [OF this] process_hashtag_counts [OF p] show ?case
    by auto
qed

lemma process_hashtag_failed:
  assumes "build_record rt env cfg vid h w = (Inr (ed, tr), w')"
    and "fst (save_to_supabase c s tr) = Inr False"
  shows "process_hashtag rt env c cfg vid h (w, s, rep) =
     (w', snd (save_to_supabase c s tr),
      rep\<lparr>failed := failed rep + 1,
          errors := errors rep @ [(hashtag h, ''Database save failed'')]\<rparr>)"
  using assms
  by (cases "save_to_supabase c s tr") (simp add: process_hashtag_def)

text \<open>
  C7. Let the run have processed \<open>pre\<close>, let the record for the next hashtag be built, and
  let the store operation fail for it. Then \<open>save_to_supabase\<close> returns \<open>False\<close>; the
  iteration adds one to \<open>failed\<close> and appends the hashtag with "Database save failed" to the
  errors; the run goes on with the remaining hashtags from that state; and in the final
  report the failure is listed and \<open>successful + failed\<close> counts every hashtag of the list.
\<close>
theorem write_failure_recorded_run_continues:
  assumes reach: "save_trends_to_database rt env c cfg vid w0 s0 pre = (w, s, rep)"
    and built: "build_record rt env cfg vid h w = (Inr (ed, tr), w')"
    and fails: "store_op_fails c s tr"
  shows "fst (save_to_supabase c s tr) = Inr False
     \<and> process_hashtag rt env c cfg vid h (w, s, rep) =
         (w', snd (save_to_supabase c s tr),
          rep\<lparr>failed := failed rep + 1,
              errors := errors rep @ [(hashtag h, ''Database save failed'')]\<rparr>)
     \<and> save_trends_to_database rt env c cfg vid w0 s0 (pre @ h # rest)
         = save_trends_loop rt env c cfg vid rest (process_hashtag rt env c cfg vid h (w, s, rep))
     \<and> (case save_trends_to_database rt env c cfg vid w0 s0 (pre @ h # rest) of
          (w2, s2, rep2) \<Rightarrow>
            (hashtag h, ''Database save failed'') \<in> set (errors rep2)
            \<and> failed rep + 1 \<le> failed rep2
            \<and> successful rep2 + failed rep2 = int (length (pre @ h # rest)))"
proof -
  have f: "fst (save_to_supabase c s tr) = Inr False"
    using fails by (rule store_op_fails_save)
  let ?rep1 = "rep\<lparr>failed := failed rep + 1,
                  errors := errors rep @ [(hashtag h, ''Database save failed'')]\<rparr>"
  have p: "process_hashtag rt env c cfg vid h (w, s, rep)
           = (w', snd (save_to_supabase c s tr), ?rep1)"
    using built f by (rule process_hashtag_failed)
  have cont: "save_trends_to_database rt env c cfg vid w0 s0 (pre @ h # rest)
         = save_trends_loop rt env c cfg vid rest (process_hashtag rt env c cfg vid h (w, s, rep))"
    using reach by (simp add: save_trends_to_database_def save_trends_loop_append)
  obtain w2 s2 rep2 where fin:
    "save_trends_to_database rt env c cfg vid w0 s0 (pre @ h # rest) = (w2, s2, rep2)"
    by (cases "save_trends_to_database rt env c cfg vid w0 s0 (pre @ h # rest)") auto
  have rest: "save_trends_loop rt env c cfg vid rest (w', snd (save_to_supabase c s tr), ?rep1)
              = (w2, s2, rep2)"
    using cont fin p by simp
  have "failed ?rep1 \<le> failed rep2 \<and> set (errors ?rep1) \<subseteq> set (errors rep2)"
    using save_trends_loop_counts [OF rest] by blast
  then have a: "(hashtag h, ''Database save failed'') \<in> set (errors rep2)"
    and b: "failed rep + 1 \<le> failed rep2"
    by auto
  have t: "successful rep2 + failed rep2 = int (length (pre @ h # rest))"
    using save_trends_loop_counts [OF fin [unfolded save_trends_to_database_def]] by simp
  have final: "case save_trends_to_database rt env c cfg vid w0 s0 (pre @ h # rest) of
          (w2, s2, rep2) \<Rightarrow>
            (hashtag h, ''Database save failed'') \<in> set (errors rep2)
            \<and> failed rep + 1 \<le> failed rep2
            \<and> successful rep2 + failed rep2 = int (length (pre @ h # rest))"
    unfolding fin using a b t by simp
  from f p cont final show ?thesis by (intro conjI)
qed

theorem write_failure_recorded_run_continues_witness:
  "(case fst (build_record exact_runtime
        \<lparr>scrape = (\<lambda>w u. (Inl (Raised ''timeout''), w)), goto_explore = (\<lambda>w. w),
         randint = (\<lambda>a b w. (a, w)), uniform_15_25 = (\<lambda>w. (20, w)),
         utcnow = (\<lambda>w. (w, Suc w))\<rparr>
        \<lparr>SCROLL_COUNT = 15, POSTS_TO_SCAN = 400, MIN_HASHTAG_FREQUENCY = 1,
         TOP_HASHTAGS_TO_SAVE = 10, POSTS_PER_HASHTAG = 3\<rparr>
        ''run-1''
        \<lparr>hashtag = ''bad'', frequency = 2, posts_count = 0, sample_posts = [],
         category = ''general''\<rparr>
        (0 :: nat)) of
      Inl e \<Rightarrow> False
    | Inr (ed, tr) \<Rightarrow>
        store_op_fails
          \<lparr>select_eq = (\<lambda>s k. Inr []),
           update_eq = (\<lambda>s u k. (Inl (Raised ''down''), s)),
           insert_row = (\<lambda>s r. if topic_hashtag r = ''#bad''
                                 then (Inl (Raised ''constraint''), s) else (Inr [r], Suc s))\<rparr>
          (0 :: nat) tr)
   \<and> snd (save_trends_to_database exact_runtime
        \<lparr>scrape = (\<lambda>w u. (Inl (Raised ''timeout''), w)), goto_explore = (\<lambda>w. w),
         randint = (\<lambda>a b w. (a, w)), uniform_15_25 = (\<lambda>w. (20, w)),
         utcnow = (\<lambda>w. (w, Suc w))\<rparr>
        \<lparr>select_eq = (\<lambda>s k. Inr []),
         update_eq = (\<lambda>s u k. (Inl (Raised ''down''), s)),
         insert_row = (\<lambda>s r. if topic_hashtag r = ''#bad''
                            then (Inl (Raised ''constraint''), s) else (Inr [r], Suc s))\<rparr>
        \<lparr>SCROLL_COUNT = 15, POSTS_TO_SCAN = 400, MIN_HASHTAG_FREQUENCY = 1,
         TOP_HASHTAGS_TO_SAVE = 10, POSTS_PER_HASHTAG = 3\<rparr>
        ''run-1'' (0 :: nat) (0 :: nat)
        [\<lparr>hashtag = ''bad'', frequency = 2, posts_count = 0, sample_posts = [],
          category = ''general''\<rparr>,
         \<lparr>hashtag = ''sunset'', frequency = 1, posts_count = 0, sample_posts = [],
          category = ''general''\<rparr>])
     = (Suc 0,
        \<lparr>successful = 1, failed = 1,
         saved_hashtags =
           [(\<lparr>hashtag = ''sunset'', frequency = 1, posts_count = 0, sample_posts = [],
              category = ''general''\<rparr>,
             \<lparr>avg_likes = PInt 1000, avg_comments = PInt 50, avg_engagement = PInt 1050,
              avg_views = PInt 20000, total_engagement = PInt 0, total_views = PInt 20000,
              video_count = 0\<rparr>)],
         errors = [(''bad'', ''Database save failed'')]\<rparr>)"
proof -
  let ?env = "\<lparr>scrape = (\<lambda>(w :: nat) (u :: string). (Inl (Raised ''timeout''), w)),
         goto_explore = (\<lambda>w. w), randint = (\<lambda>a b w. (a, w)),
         uniform_15_25 = (\<lambda>w. (20 :: rat, w)), utcnow = (\<lambda>w. (w, Suc w))\<rparr>"
  let ?c = "\<lparr>select_eq = (\<lambda>(s :: nat) (k :: string). Inr []),
         update_eq = (\<lambda>s (u :: rat row_update) k. (Inl (Raised ''down''), s)),
         insert_row = (\<lambda>s r. if topic_hashtag r = ''#bad''
                            then (Inl (Raised ''constraint''), s) else (Inr [r], Suc s))\<rparr>"
  let ?cfg = "\<lparr>SCROLL_COUNT = 15, POSTS_TO_SCAN = 400, MIN_HASHTAG_FREQUENCY = 1,
         TOP_HASHTAGS_TO_SAVE = 10, POSTS_PER_HASHTAG = 3\<rparr>"
  let ?bad = "\<lparr>hashtag = ''bad'', frequency = 2, posts_count = 0, sample_posts = [],
         category = ''general''\<rparr>"
  let ?good = "\<lparr>hashtag = ''sunset'', frequency = 1, posts_count = 0, sample_posts = [],
          category = ''general''\<rparr>"
  let ?zero = "\<lparr>successful = 0, failed = 0, saved_hashtags = [], errors = []\<rparr>
                 :: rat report"
  have reach: "save_trends_to_database exact_runtime ?env ?c ?cfg ''run-1'' 0 0 [] = (0, 0, ?zero)"
    by (simp add: save_trends_to_database_def)
  obtain ed tr where built: "build_record exact_runtime ?env ?cfg ''run-1'' ?bad 0
                              = (Inr (ed, tr), Suc 0)"
    by (simp add: build_record_def analyze_hashtag_engagement_def py_take_def
          format_averages_def from_instagram_data_def exact_runtime_def)
  have hs: "hashtags tr = [''#bad'']"
    using built
    by (auto simp: build_record_def analyze_hashtag_engagement_def py_take_def
          format_averages_def from_instagram_data_def exact_runtime_def)
  have fails: "store_op_fails ?c 0 tr"
    by (simp add: store_op_fails_def hs payload_of_def)
  have run: "snd (save_trends_to_database exact_runtime ?env ?c ?cfg ''run-1'' 0 0 [?bad, ?good])
     = (Suc 0,
        \<lparr>successful = 1, failed = 1,
         saved_hashtags =
           [(?good,
             \<lparr>avg_likes = PInt 1000, avg_comments = PInt 50, avg_engagement = PInt 1050,
              avg_views = PInt 20000, total_engagement = PInt 0, total_views = PInt 20000,
              video_count = 0\<rparr>)],
         errors = [(''bad'', ''Database save failed'')]\<rparr>)"
    by (simp add: save_trends_to_database_def process_hashtag_def build_record_def
          analyze_hashtag_engagement_def py_take_def format_averages_def
          from_instagram_data_def exact_runtime_def save_to_supabase_def payload_of_def)
  show ?thesis
    using write_failure_recorded_run_continues [OF reach built fails, of "[?good]"] fails run
    unfolding built by simp
qed

end
